theory Spec2Isabelle
  imports Complex_Main "HOL-Library.Sublist"
begin

section \<open>Strings\<close>

text \<open>
  Python strings are modelled as \<^typ>\<open>string\<close>. The operations used by the code below are
  \<^verbatim>\<open>str.lower()\<close>, the substring test \<^verbatim>\<open>needle in hay\<close> and \<^verbatim>\<open>sep.join(parts)\<close>.
  The model covers ASCII text only: \<open>str_lower\<close> maps the letters A to Z to a to z and
  leaves every other character alone, where Python also lowercases the letters beyond ASCII
  (the Kelvin sign to k, the dotted capital I to i followed by a combining dot). Every
  statement below about lowercased text is a statement about ASCII input.
\<close>

definition lower_char :: "char \<Rightarrow> char" where
  "lower_char c =
     (case map_of (zip ''ABCDEFGHIJKLMNOPQRSTUVWXYZ'' ''abcdefghijklmnopqrstuvwxyz'') c of
        Some l \<Rightarrow> l
      | None \<Rightarrow> c)"

definition str_lower :: "string \<Rightarrow> string" where
  "str_lower s = map lower_char s"

text \<open>\<^verbatim>\<open>needle in hay\<close>: some suffix of \<open>hay\<close> starts with \<open>needle\<close>.\<close>

fun str_in :: "string \<Rightarrow> string \<Rightarrow> bool" where
  "str_in needle [] = (needle = [])"
| "str_in needle (c # cs) = (prefix needle (c # cs) \<or> str_in needle cs)"

text \<open>\<^verbatim>\<open>sep.join(parts)\<close>\<close>

fun str_join :: "string \<Rightarrow> string list \<Rightarrow> string" where
  "str_join sep [] = []"
| "str_join sep [p] = p"
| "str_join sep (p # q # ps) = p @ sep @ str_join sep (q # ps)"

text \<open>Truthiness of a value of type \<^verbatim>\<open>str | None\<close>: \<^verbatim>\<open>None\<close> and \<^verbatim>\<open>""\<close> are falsy.\<close>

definition truthy :: "string option \<Rightarrow> bool" where
  "truthy v = (case v of None \<Rightarrow> False | Some s \<Rightarrow> s \<noteq> [])"

section \<open>Context (framework/core/context.py)\<close>

text \<open>
  Clock readings (\<^verbatim>\<open>datetime.utcnow()\<close>) are natural numbers handed to the operation
  that reads the clock. Generated identifiers (\<^verbatim>\<open>uuid4()\<close>) are handed in the same way
  where the code generates one.
\<close>

datatype Platform = TWILIO | WEB | CLI | TEST

record UserContext =
  user_id :: string
  phone_number :: string
  full_name :: "string option"
  is_authenticated :: bool

definition anonymous :: UserContext where
  "anonymous =
     \<lparr>user_id = ''anonymous'', phone_number = ''unknown'', full_name = None,
      is_authenticated = False\<rparr>"

record ConversationTurn =
  turn_timestamp :: nat
  role :: string
  content :: string
  turn_agent_name :: "string option"

record HandoffData =
  source_agent :: string
  target_agent :: string
  last_user_turn :: "string option"
  user_intent :: "string option"
  user_name :: "string option"
  hd_greeting_completed :: bool
  scratchpad_snapshot :: "string \<rightharpoonup> string"
  reason :: "string option"
  hd_timestamp :: nat

text \<open>
  \<^verbatim>\<open>HandoffData.to_context_injection\<close>. Each \<^verbatim>\<open>if self.field: parts.append(...)\<close> is one
  \<open>append_field\<close>; the test is Python truthiness, so a field holding the empty string
  adds no line.
\<close>

definition append_field :: "string list \<Rightarrow> string option \<Rightarrow> (string \<Rightarrow> string) \<Rightarrow> string list" where
  "append_field parts field fmt =
     (case field of
        None \<Rightarrow> parts
      | Some v \<Rightarrow> if v = [] then parts else parts @ [fmt v])"

definition greeting_note :: string where
  "greeting_note = ''Note: Greeting already completed. Do NOT re-greet the user.''"

definition handoff_parts :: "HandoffData \<Rightarrow> string list" where
  "handoff_parts h =
     (let parts = [];
          parts = append_field parts (user_name h) (\<lambda>v. ''User Name: '' @ v);
          parts = append_field parts (user_intent h) (\<lambda>v. ''Previous Intent: '' @ v);
          parts = append_field parts (last_user_turn h)
                    (\<lambda>v. ''Last User Message: '' @ [CHR 0x22] @ v @ [CHR 0x22]);
          parts = (if hd_greeting_completed h then parts @ [greeting_note] else parts);
          parts = append_field parts (reason h) (\<lambda>v. ''Handoff Reason: '' @ v)
      in parts)"

definition to_context_injection :: "HandoffData \<Rightarrow> string" where
  "to_context_injection h =
     (let parts = handoff_parts h
      in if parts = [] then []
         else ''[HANDOFF CONTEXT]'' @ [CHR 0x0A] @ str_join [CHR 0x0A] parts
              @ [CHR 0x0A] @ ''[END CONTEXT]'')"

text \<open>
  The lines of a string, as \<^verbatim>\<open>str.split("\n")\<close> gives them: the pieces between
  newline characters. \<open>no_newline\<close> says that an optional field, when set, holds no newline
  character. Both are used only to state what lines the injection contains.
\<close>

fun split_lines :: "string \<Rightarrow> string list" where
  "split_lines [] = [[]]"
| "split_lines (c # cs) =
     (if c = CHR 0x0A then [] # split_lines cs
      else (case split_lines cs of
              [] \<Rightarrow> [[c]]
            | l # ls \<Rightarrow> (c # l) # ls))"

definition no_newline :: "string option \<Rightarrow> bool" where
  "no_newline v = (case v of None \<Rightarrow> True | Some s \<Rightarrow> (\<forall>c \<in> set s. c \<noteq> CHR 0x0A))"

record SessionContext =
  session_id :: string
  created_at :: nat
  last_activity :: nat
  platform :: Platform
  active_agent :: string
  previous_agent :: "string option"
  conversation_history :: "ConversationTurn list"
  scratchpad :: "string \<rightharpoonup> string"
  handoff_data :: "HandoffData option"
  greeting_completed :: bool

text \<open>The constructor \<^verbatim>\<open>SessionContext(session_id=..., platform=...)\<close> with the field defaults.\<close>

definition SessionContext_init :: "nat \<Rightarrow> string \<Rightarrow> Platform \<Rightarrow> SessionContext" where
  "SessionContext_init now sid pf =
     \<lparr>session_id = sid, created_at = now, last_activity = now, platform = pf,
      active_agent = ''router'', previous_agent = None, conversation_history = [],
      scratchpad = Map.empty, handoff_data = None, greeting_completed = False\<rparr>"

definition add_turn :: "nat \<Rightarrow> string \<Rightarrow> string \<Rightarrow> string option \<Rightarrow> SessionContext \<Rightarrow> SessionContext" where
  "add_turn now r c an s =
     s\<lparr>conversation_history :=
         conversation_history s
         @ [\<lparr>turn_timestamp = now, role = r, content = c, turn_agent_name = an\<rparr>],
       last_activity := now\<rparr>"

text \<open>\<^verbatim>\<open>for turn in reversed(self.conversation_history): if turn.role == "user": return ...\<close>\<close>

fun find_user_turn :: "ConversationTurn list \<Rightarrow> string option" where
  "find_user_turn [] = None"
| "find_user_turn (t # ts) = (if role t = ''user'' then Some (content t) else find_user_turn ts)"

definition get_last_user_turn :: "SessionContext \<Rightarrow> string option" where
  "get_last_user_turn s = find_user_turn (rev (conversation_history s))"

definition switch_agent :: "nat \<Rightarrow> string \<Rightarrow> SessionContext \<Rightarrow> SessionContext" where
  "switch_agent now new_agent s =
     s\<lparr>previous_agent := Some (active_agent s), active_agent := new_agent,
       last_activity := now\<rparr>"

text \<open>
  \<^verbatim>\<open>prepare_handoff\<close> builds the handoff from the session, stores it in the slot
  (overwriting what was there) and returns it.
\<close>

definition prepare_handoff :: "nat \<Rightarrow> string \<Rightarrow> string option \<Rightarrow> string option \<Rightarrow> SessionContext \<Rightarrow> HandoffData \<times> SessionContext" where
  "prepare_handoff now target rsn intent s =
     (let h = \<lparr>source_agent = active_agent s, target_agent = target,
                last_user_turn = get_last_user_turn s, user_intent = intent,
                user_name = None, hd_greeting_completed = greeting_completed s,
                scratchpad_snapshot = scratchpad s, reason = rsn, hd_timestamp = now\<rparr>
      in (h, s\<lparr>handoff_data := Some h\<rparr>))"

definition consume_handoff :: "SessionContext \<Rightarrow> HandoffData option \<times> SessionContext" where
  "consume_handoff s = (handoff_data s, s\<lparr>handoff_data := None\<rparr>)"

definition mark_greeting_completed :: "SessionContext \<Rightarrow> SessionContext" where
  "mark_greeting_completed s = s\<lparr>greeting_completed := True\<rparr>"

record GlobalContext =
  current_time :: nat
  session :: SessionContext
  user :: UserContext
  available_agents :: "string list"

definition GlobalContext_init :: "nat \<Rightarrow> SessionContext \<Rightarrow> GlobalContext" where
  "GlobalContext_init now s =
     \<lparr>current_time = now, session = s, user = anonymous,
      available_agents = [''router'', ''task_manager'', ''identity'']\<rparr>"

definition refresh_time :: "nat \<Rightarrow> GlobalContext \<Rightarrow> GlobalContext" where
  "refresh_time now c = c\<lparr>current_time := now\<rparr>"

text \<open>\<^verbatim>\<open>set_user\<close> also writes the user's name into a pending handoff.\<close>

definition set_user :: "UserContext \<Rightarrow> GlobalContext \<Rightarrow> GlobalContext" where
  "set_user u c =
     (let c = c\<lparr>user := u\<rparr>
      in case handoff_data (session c) of
           None \<Rightarrow> c
         | Some h \<Rightarrow>
             c\<lparr>session := (session c)\<lparr>handoff_data := Some (h\<lparr>user_name := full_name u\<rparr>)\<rparr>\<rparr>)"

definition clear_user :: "GlobalContext \<Rightarrow> GlobalContext" where
  "clear_user c = c\<lparr>user := anonymous\<rparr>"

definition ctx_is_authenticated :: "GlobalContext \<Rightarrow> bool" where
  "ctx_is_authenticated c = is_authenticated (user c)"

section \<open>Exceptions (framework/core/exceptions.py)\<close>

text \<open>
  A raised exception is a value. \<open>RoutingException message source_agent target_agent\<close>,
  \<open>PriorityIntervention message intervention_type target_agent details\<close>,
  \<open>AgentException message agent_name recoverable\<close> and
  \<open>ToolExecutionException message tool_name\<close> carry the attributes of the framework's
  classes; \<open>ValueError\<close> and \<open>RuntimeError\<close> are Python's; \<open>IntegrityError\<close> is the
  database driver's constraint violation; \<open>ValidationError\<close> is pydantic's, raised by a
  model constructor given a value of the wrong type; \<open>OtherException\<close> stands for any other exception
  raised by code outside the model (the LLM client, a tool).
\<close>

datatype detail = DStr string | DNum rat

datatype exn =
    ValueError string
  | RuntimeError string
  | RoutingException string string string
  | PriorityIntervention string string "string option" "(string \<times> detail) list"
  | AgentException string string bool
  | ToolExecutionException string string
  | IntegrityError string
  | ValidationError string
  | OtherException string

section \<open>Signals and responses (framework/core/signals.py)\<close>

text \<open>
  A signal is one of the three subclasses of \<^verbatim>\<open>Signal\<close>. Every signal carries its
  session id and its metadata dictionary; a text signal carries \<^verbatim>\<open>content\<close>, an audio
  signal its bytes, a system signal its event type.
\<close>

datatype Signal =
    TextSignal string "string \<rightharpoonup> string" string
  | AudioSignal string "string \<rightharpoonup> string" string
  | SystemSignal string "string \<rightharpoonup> string" string

fun signal_session_id :: "Signal \<Rightarrow> string" where
  "signal_session_id (TextSignal sid md c) = sid"
| "signal_session_id (AudioSignal sid md a) = sid"
| "signal_session_id (SystemSignal sid md e) = sid"

datatype ResponseType = AUDIO | TEXT | TOOL_CALL | ROUTING | ERROR

text \<open>
  The arguments of a tool call are a \<^verbatim>\<open>dict[str, Any]\<close> decoded from the model's reply: a
  value is a string or some other JSON value. A pydantic field of type \<^verbatim>\<open>str\<close> accepts only
  the strings.
\<close>

datatype jvalue = JStr string | JNull | JBool bool | JInt int | JOther

fun is_str :: "jvalue \<Rightarrow> bool" where
  "is_str (JStr s) = True"
| "is_str v = False"

record ToolCall =
  tool_name :: string
  arguments :: "string \<rightharpoonup> jvalue"
  call_id :: string

record RoutingDecision =
  thought_process :: string
  route_to :: string
  handover_context :: "string option"
  rd_priority :: int

record ToolResult =
  tr_tool_name :: string
  tr_call_id :: string
  tr_success :: bool
  tr_payload :: string

record Response =
  response_type :: ResponseType
  resp_session_id :: string
  agent_name :: string
  resp_audio_data :: "string option"
  text_content :: "string option"
  tool_calls :: "ToolCall list"
  routing_decision :: "RoutingDecision option"
  error_message :: "string option"
  tool_results :: "ToolResult list option"
  requires_tool_execution :: bool
  is_final :: bool

definition routing_response :: "string \<Rightarrow> string \<Rightarrow> RoutingDecision \<Rightarrow> Response" where
  "routing_response sid nm decision =
     \<lparr>response_type = ROUTING, resp_session_id = sid, agent_name = nm,
      resp_audio_data = None, text_content = None, tool_calls = [],
      routing_decision = Some decision, error_message = None, tool_results = None,
      requires_tool_execution = False, is_final = False\<rparr>"

definition text_response :: "string \<Rightarrow> string \<Rightarrow> string \<Rightarrow> Response" where
  "text_response sid nm c =
     \<lparr>response_type = TEXT, resp_session_id = sid, agent_name = nm,
      resp_audio_data = None, text_content = Some c, tool_calls = [],
      routing_decision = None, error_message = None, tool_results = None,
      requires_tool_execution = False, is_final = True\<rparr>"

definition tool_response :: "string \<Rightarrow> string \<Rightarrow> ToolCall list \<Rightarrow> Response" where
  "tool_response sid nm calls =
     \<lparr>response_type = TOOL_CALL, resp_session_id = sid, agent_name = nm,
      resp_audio_data = None, text_content = None, tool_calls = calls,
      routing_decision = None, error_message = None, tool_results = None,
      requires_tool_execution = True, is_final = False\<rparr>"

section \<open>Router agent (client/agents/router.py)\<close>

text \<open>
  The reply of the LLM client (\<^verbatim>\<open>LLMResponse\<close>): the call either raises or returns a
  text and a list of tool calls.
\<close>

record LLMResponse =
  llm_text :: "string option"
  llm_tool_calls :: "ToolCall list option"

definition VALID_TARGETS :: "string list" where
  "VALID_TARGETS = [''identity'', ''task_manager'', ''router'']"

definition extract_text :: "Signal \<Rightarrow> string option" where
  "extract_text signal =
     (case signal of
        TextSignal sid md c \<Rightarrow> Some c
      | AudioSignal sid md a \<Rightarrow> md ''transcription''
      | SystemSignal sid md e \<Rightarrow> None)"

definition task_keywords :: "string list" where
  "task_keywords =
     [''task'', ''todo'', ''remind'', ''schedule'', ''add'', ''create'',
      ''list'', ''show'', ''what'' @ [CHR 0x27] @ ''s on'', ''what do i have'', ''meeting'',
      ''appointment'', ''deadline'', ''priority'', ''due'', ''mark'',
      ''complete'', ''done'', ''finish'', ''delete'', ''remove'']"

definition auth_keywords :: "string list" where
  "auth_keywords = [''who am i'', ''my name'', ''identify'']"

text \<open>The two \<^verbatim>\<open>for keyword in ...: if keyword in text: return ...\<close> loops of \<^verbatim>\<open>_quick_route\<close>.\<close>

fun first_keyword :: "string list \<Rightarrow> string \<Rightarrow> string option" where
  "first_keyword [] txt = None"
| "first_keyword (k # ks) txt = (if str_in k txt then Some k else first_keyword ks txt)"

definition quick_route :: "string \<Rightarrow> bool \<Rightarrow> RoutingDecision option" where
  "quick_route txt authenticated =
     (case first_keyword task_keywords txt of
        Some k \<Rightarrow>
          Some \<lparr>thought_process = ''Detected task intent: '' @ [CHR 0x27] @ k @ [CHR 0x27],
                route_to = ''task_manager'', handover_context = Some txt, rd_priority = 0\<rparr>
      | None \<Rightarrow>
          (case first_keyword auth_keywords txt of
             Some k \<Rightarrow>
               Some \<lparr>thought_process =
                       ''User asking about identity: '' @ [CHR 0x27] @ k @ [CHR 0x27],
                     route_to = ''identity'', handover_context = None, rd_priority = 0\<rparr>
           | None \<Rightarrow>
               if authenticated then
                 Some \<lparr>thought_process = ''Authenticated user, defaulting to task manager'',
                       route_to = ''task_manager'', handover_context = Some txt,
                       rd_priority = 0\<rparr>
               else None))"

definition parse_text_routing :: "string \<Rightarrow> string \<Rightarrow> string \<Rightarrow> Response" where
  "parse_text_routing self_name txt sid =
     (let text_lower = str_lower txt;
          target = (if str_in ''identity'' text_lower \<or> str_in ''auth'' text_lower
                    then ''identity'' else ''task_manager'')
      in routing_response sid self_name
           \<lparr>thought_process = ''Parsed from text: '' @ take 100 txt, route_to = target,
            handover_context = None, rd_priority = 0\<rparr>)"

text \<open>
  The loop over \<^verbatim>\<open>llm_response.tool_calls\<close> in \<^verbatim>\<open>_llm_route\<close>: the first call named
  \<^verbatim>\<open>transfer_agent\<close> ends it. \<open>None\<close> means the loop ended without returning;
  \<open>Some (Inr r)\<close> that it returned \<open>r\<close>; \<open>Some (Inl e)\<close> that it raised: the constructor
  \<^verbatim>\<open>RoutingDecision(thought_process=reason, ...)\<close> validates its fields, and a \<^verbatim>\<open>reason\<close>
  that is not a string is refused. A target that is not a string is not in
  \<open>VALID_TARGETS\<close> and is replaced before the constructor sees it.
\<close>

fun transfer_call_route :: "string \<Rightarrow> string \<Rightarrow> string \<Rightarrow> ToolCall list \<Rightarrow> (exn + Response) option" where
  "transfer_call_route self_name sid txt_content [] = None"
| "transfer_call_route self_name sid txt_content (tc # tcs) =
     (if tool_name tc = ''transfer_agent'' then
        let target = (case arguments tc ''target_agent_name'' of
                        None \<Rightarrow> JStr ''task_manager'' | Some t \<Rightarrow> t);
            rsn = (case arguments tc ''reason'' of None \<Rightarrow> JStr [] | Some r \<Rightarrow> r);
            target = (case target of
                        JStr t \<Rightarrow> if t \<notin> set VALID_TARGETS then ''task_manager'' else t
                      | JNull \<Rightarrow> ''task_manager''
                      | JBool b \<Rightarrow> ''task_manager''
                      | JInt i \<Rightarrow> ''task_manager''
                      | JOther \<Rightarrow> ''task_manager'')
        in case rsn of
             JStr r \<Rightarrow>
               Some (Inr (routing_response sid self_name
                            \<lparr>thought_process = r, route_to = target,
                             handover_context = Some txt_content, rd_priority = 0\<rparr>))
           | JNull \<Rightarrow> Some (Inl (ValidationError ''thought_process''))
           | JBool b \<Rightarrow> Some (Inl (ValidationError ''thought_process''))
           | JInt i \<Rightarrow> Some (Inl (ValidationError ''thought_process''))
           | JOther \<Rightarrow> Some (Inl (ValidationError ''thought_process''))
      else transfer_call_route self_name sid txt_content tcs)"

definition fallback_routing :: "string \<Rightarrow> string \<Rightarrow> Response" where
  "fallback_routing self_name sid =
     routing_response sid self_name
       \<lparr>thought_process = ''Fallback routing'', route_to = ''task_manager'',
        handover_context = None, rd_priority = 0\<rparr>"

text \<open>
  \<^verbatim>\<open>RouterAgent._llm_route\<close>, given what \<^verbatim>\<open>gemini_client.generate\<close> did. An exception inside
  the \<^verbatim>\<open>try\<close> block is logged and falls through to the default fallback.
\<close>

definition llm_route :: "string \<Rightarrow> Signal \<Rightarrow> exn + LLMResponse \<Rightarrow> Response" where
  "llm_route self_name signal llm =
     (let sid = signal_session_id signal;
          txt_content = (if truthy (extract_text signal) then the (extract_text signal)
                          else ''[audio input]'')
      in case llm of
           Inl e \<Rightarrow> fallback_routing self_name sid
         | Inr llm_response \<Rightarrow>
             (case (case llm_tool_calls llm_response of
                      None \<Rightarrow> None
                    | Some calls \<Rightarrow> transfer_call_route self_name sid txt_content calls) of
                Some (Inr r) \<Rightarrow> r
              | Some (Inl e) \<Rightarrow> fallback_routing self_name sid
              | None \<Rightarrow>
                  (case llm_text llm_response of
                     None \<Rightarrow> fallback_routing self_name sid
                   | Some t \<Rightarrow>
                       if t = [] then fallback_routing self_name sid
                       else parse_text_routing self_name t sid)))"

text \<open>\<^verbatim>\<open>RouterAgent.process_signal\<close>; \<open>authenticated\<close> is \<^verbatim>\<open>context.is_authenticated()\<close>.\<close>

definition router_process_signal :: "string \<Rightarrow> Signal \<Rightarrow> bool \<Rightarrow> exn + LLMResponse \<Rightarrow> Response" where
  "router_process_signal self_name signal authenticated llm =
     (if \<not> authenticated then
        routing_response (signal_session_id signal) self_name
          \<lparr>thought_process = ''User is not authenticated'', route_to = ''identity'',
           handover_context = Some ''New session, authentication required'',
           rd_priority = 0\<rparr>
      else
        case (case extract_text signal of
                None \<Rightarrow> None
              | Some txt \<Rightarrow> if txt = [] then None else quick_route (str_lower txt) authenticated) of
          Some quick \<Rightarrow> routing_response (signal_session_id signal) self_name quick
        | None \<Rightarrow> llm_route self_name signal llm)"

text \<open>The target a \<^verbatim>\<open>transfer_agent\<close> call is given after the validation against \<open>VALID_TARGETS\<close>.\<close>

definition valid_target :: "ToolCall \<Rightarrow> string" where
  "valid_target tc =
     (case arguments tc ''target_agent_name'' of
        Some (JStr t) \<Rightarrow> if t \<in> set VALID_TARGETS then t else ''task_manager''
      | _ \<Rightarrow> ''task_manager'')"

section \<open>Intervention observer (framework/core/observer.py)\<close>

record HotwordConfig =
  hotwords :: "string list"
  case_sensitive :: bool

definition default_hotwords :: "string list" where
  "default_hotwords =
     [''stop'', ''cancel'', ''operator'', ''help'', ''emergency'', ''nevermind'', ''never mind'']"

text \<open>\<^verbatim>\<open>HotwordConfig.__init__\<close>: \<^verbatim>\<open>hotwords or [...]\<close> takes the default for \<^verbatim>\<open>None\<close> and for \<^verbatim>\<open>[]\<close>.\<close>

definition HotwordConfig_init :: "string list option \<Rightarrow> bool \<Rightarrow> HotwordConfig" where
  "HotwordConfig_init hs cs =
     \<lparr>hotwords = (case hs of None \<Rightarrow> default_hotwords
                    | Some l \<Rightarrow> if l = [] then default_hotwords else l),
      case_sensitive = cs\<rparr>"

fun matches_loop :: "bool \<Rightarrow> string \<Rightarrow> string list \<Rightarrow> string option" where
  "matches_loop cs check_text [] = None"
| "matches_loop cs check_text (w # ws) =
     (let check_word = (if cs then w else str_lower w)
      in if str_in check_word check_text then Some w else matches_loop cs check_text ws)"

definition matches :: "HotwordConfig \<Rightarrow> string \<Rightarrow> string option" where
  "matches cfg txt =
     (let check_text = (if case_sensitive cfg then txt else str_lower txt)
      in matches_loop (case_sensitive cfg) check_text (hotwords cfg))"

definition get_target_for_hotword :: "string \<Rightarrow> string option" where
  "get_target_for_hotword hotword =
     (let hotword_lower = str_lower hotword
      in if hotword_lower \<in> set [''operator'', ''help'', ''emergency''] then
           Some ''human_intervention''
         else if hotword_lower \<in> set [''stop'', ''cancel'', ''nevermind'', ''never mind''] then
           Some ''router''
         else None)"

definition negative_words :: "string list" where
  "negative_words =
     [''angry'', ''frustrated'', ''terrible'', ''awful'', ''hate'',
      ''worst'', ''horrible'', ''disgusting'', ''furious'', ''upset'']"

definition positive_words :: "string list" where
  "positive_words =
     [''great'', ''wonderful'', ''excellent'', ''amazing'', ''love'',
      ''best'', ''fantastic'', ''happy'', ''pleased'', ''thank'']"

text \<open>
  \<^verbatim>\<open>_analyze_sentiment\<close>. The score is a quotient of two small integers; it is kept as a
  rational, and no such quotient equals the threshold \<open>-7/10\<close>.
\<close>

definition analyze_sentiment :: "string \<Rightarrow> rat" where
  "analyze_sentiment txt =
     (let text_lower = str_lower txt;
          neg_count = int (length (filter (\<lambda>w. str_in w text_lower) negative_words));
          pos_count = int (length (filter (\<lambda>w. str_in w text_lower) positive_words));
          total = neg_count + pos_count
      in if total = 0 then 0 else of_int (pos_count - neg_count) / of_int total)"

record InterventionObserver =
  hotword_config :: HotwordConfig
  enable_sentiment :: bool
  p_last_activity :: nat
  p_intervention_triggered :: bool
  p_cancel_event :: bool

text \<open>
  \<^verbatim>\<open>InterventionObserver._analyze_signal\<close>: the result is the raised intervention or a normal
  return, with the observer as the call left it.
\<close>

definition analyze_signal :: "InterventionObserver \<Rightarrow> Signal \<Rightarrow> (exn + unit) \<times> InterventionObserver" where
  "analyze_signal obs signal =
     (let txt_content = (case signal of
                            TextSignal sid md c \<Rightarrow> Some c
                          | AudioSignal sid md a \<Rightarrow> md ''transcription''
                          | SystemSignal sid md e \<Rightarrow> None)
      in case txt_content of
           None \<Rightarrow> (Inr (), obs)
         | Some txt \<Rightarrow>
             if txt = [] then (Inr (), obs)
             else if truthy (matches (hotword_config obs) txt) then
               let matched = the (matches (hotword_config obs) txt)
               in (Inl (PriorityIntervention (''Hotword detected: '' @ matched) ''HOTWORD''
                          (get_target_for_hotword matched)
                          [(''hotword'', DStr matched), (''original_text'', DStr txt)]),
                   obs\<lparr>p_intervention_triggered := True\<rparr>)
             else if enable_sentiment obs then
               let sentiment_score = analyze_sentiment txt
               in if sentiment_score < - (7 / 10) then
                    (Inl (PriorityIntervention ''Negative sentiment detected'' ''SENTIMENT''
                            (Some ''human_intervention'')
                            [(''sentiment_score'', DNum sentiment_score)]),
                     obs)
                  else (Inr (), obs)
             else (Inr (), obs))"

section \<open>Task repository (infrastructure/database)\<close>

text \<open>
  The \<^verbatim>\<open>tasks\<close> table is a map from the primary key \<^verbatim>\<open>task_id\<close> to the row; the
  \<^verbatim>\<open>users\<close> table is represented by its set of keys, which the foreign key of
  \<^verbatim>\<open>tasks.user_id\<close> refers to. \<open>enforce_fk\<close> tells whether the backend checks foreign keys
  (PostgreSQL does, SQLite does not unless asked to). A commit that violates a constraint
  raises and leaves the tables as they were.
\<close>

record Task =
  task_id :: string
  task_user_id :: string
  description :: string
  priority :: int
  status :: string
  due_date :: "nat option"
  task_created_at :: nat
  task_updated_at :: nat

record Database =
  users :: "string set"
  tasks :: "string \<rightharpoonup> Task"
  enforce_fk :: bool

text \<open>\<^verbatim>\<open>TaskRepository.create\<close>; \<open>new_id\<close> is the value of \<^verbatim>\<open>str(uuid4())\<close>.\<close>

definition create :: "Database \<Rightarrow> nat \<Rightarrow> string \<Rightarrow> string \<Rightarrow> string \<Rightarrow> int \<Rightarrow> nat option \<Rightarrow> (exn + Task) \<times> Database" where
  "create db now new_id uid d p due =
     (let task = \<lparr>task_id = new_id, task_user_id = uid, description = d,
                  priority = max 1 (min 5 p), status = ''OPEN'', due_date = due,
                  task_created_at = now, task_updated_at = now\<rparr>
      in if new_id \<in> dom (tasks db) then (Inl (IntegrityError ''tasks_pkey''), db)
         else if enforce_fk db \<and> uid \<notin> users db then
           (Inl (IntegrityError ''tasks_user_id_fkey''), db)
         else (Inr task, db\<lparr>tasks := (tasks db)(new_id \<mapsto> task)\<rparr>))"

definition get_by_id :: "Database \<Rightarrow> string \<Rightarrow> Task option" where
  "get_by_id db tid = tasks db tid"

definition valid_statuses :: "string set" where
  "valid_statuses = {''OPEN'', ''IN_PROGRESS'', ''COMPLETED'', ''CANCELLED''}"

text \<open>
  \<^verbatim>\<open>UPDATE tasks SET ... WHERE task_id = :tid\<close>: the row, when there is one, is rewritten
  and \<^verbatim>\<open>updated_at\<close> is stamped.
\<close>

definition update_row :: "Database \<Rightarrow> nat \<Rightarrow> string \<Rightarrow> (Task \<Rightarrow> Task) \<Rightarrow> Database" where
  "update_row db now tid f =
     (case tasks db tid of
        None \<Rightarrow> db
      | Some t \<Rightarrow> db\<lparr>tasks := (tasks db)(tid \<mapsto> (f t)\<lparr>task_updated_at := now\<rparr>)\<rparr>)"

definition update_status :: "Database \<Rightarrow> nat \<Rightarrow> string \<Rightarrow> string \<Rightarrow> (exn + Task option) \<times> Database" where
  "update_status db now tid s =
     (if s \<notin> valid_statuses then (Inl (ValueError (''Invalid status: '' @ s)), db)
      else let db' = update_row db now tid (\<lambda>t. t\<lparr>status := s\<rparr>)
           in (Inr (get_by_id db' tid), db'))"

text \<open>
  The keyword arguments of \<^verbatim>\<open>TaskRepository.update\<close>: for each content column, the value
  to write when the keyword is given. (For \<^verbatim>\<open>due_date\<close> the value itself may be \<^verbatim>\<open>None\<close>.)
\<close>

record TaskUpdate =
  upd_description :: "string option"
  upd_priority :: "int option"
  upd_status :: "string option"
  upd_due_date :: "nat option option"

definition apply_update :: "TaskUpdate \<Rightarrow> Task \<Rightarrow> Task" where
  "apply_update kw t =
     (let t = (case upd_description kw of None \<Rightarrow> t | Some d \<Rightarrow> t\<lparr>description := d\<rparr>);
          t = (case upd_priority kw of None \<Rightarrow> t | Some p \<Rightarrow> t\<lparr>priority := p\<rparr>);
          t = (case upd_status kw of None \<Rightarrow> t | Some s \<Rightarrow> t\<lparr>status := s\<rparr>);
          t = (case upd_due_date kw of None \<Rightarrow> t | Some dd \<Rightarrow> t\<lparr>due_date := dd\<rparr>)
      in t)"

definition update :: "Database \<Rightarrow> nat \<Rightarrow> string \<Rightarrow> TaskUpdate \<Rightarrow> (exn + Task option) \<times> Database" where
  "update db now tid kwargs =
     (let kwargs = (case upd_priority kwargs of
                      None \<Rightarrow> kwargs
                    | Some p \<Rightarrow> kwargs\<lparr>upd_priority := Some (max 1 (min 5 p))\<rparr>)
      in case (case upd_status kwargs of
                 None \<Rightarrow> None
               | Some s \<Rightarrow> if s \<notin> valid_statuses then Some s else None) of
           Some bad \<Rightarrow> (Inl (ValueError (''Invalid status: '' @ bad)), db)
         | None \<Rightarrow>
             let db' = update_row db now tid (apply_update kwargs)
             in (Inr (get_by_id db' tid), db'))"

definition delete :: "Database \<Rightarrow> string \<Rightarrow> bool \<times> Database" where
  "delete db tid = (tid \<in> dom (tasks db), db\<lparr>tasks := (tasks db)(tid := None)\<rparr>)"


section \<open>Agents (framework/core/agent.py)\<close>

text \<open>
  The state of an agent that the framework itself reads and writes: its name, its tools
  (name and \<^verbatim>\<open>is_slow\<close> flag) and the handoff context set by the lifecycle hooks. The
  hooks are those of \<^verbatim>\<open>AbstractAgent\<close>; the client agents override them only to call them
  and then touch state of their own (live session, conversation buffer).
\<close>

record AbstractAgent =
  name :: string
  tools :: "(string \<times> bool) list"
  p_handoff_context :: "string option"

definition on_enter :: "HandoffData option \<Rightarrow> AbstractAgent \<Rightarrow> AbstractAgent" where
  "on_enter handoff a =
     (case handoff of
        Some h \<Rightarrow> a\<lparr>p_handoff_context := Some (to_context_injection h)\<rparr>
      | None \<Rightarrow> a\<lparr>p_handoff_context := None\<rparr>)"

definition on_exit :: "AbstractAgent \<Rightarrow> AbstractAgent" where
  "on_exit a = a\<lparr>p_handoff_context := None\<rparr>"

definition get_tool :: "AbstractAgent \<Rightarrow> string \<Rightarrow> (string \<times> bool) option" where
  "get_tool a nm = find (\<lambda>t. fst t = nm) (tools a)"

definition is_tool_slow :: "AbstractAgent \<Rightarrow> string \<Rightarrow> bool" where
  "is_tool_slow a nm = (case get_tool a nm of Some t \<Rightarrow> snd t | None \<Rightarrow> False)"

section \<open>Orchestrator (framework/core/orchestrator.py)\<close>

text \<open>
  The registry \<^verbatim>\<open>_agents\<close> is the store of agent objects, keyed by the name they were
  registered under; \<^verbatim>\<open>_active_agent\<close> is a reference into it, that is, a key. \<open>calls\<close> is
  the sequence of calls the orchestrator has made on agents, on the session's handoff slot
  and on the I/O handler, in program order; nothing reads it, it is what an observer of the
  run sees. An agent is named in it by its registry key.
  The field \<open>ctx\<close> is \<^verbatim>\<open>self.context\<close>.
\<close>

datatype FillerType =
  Filler_ROUTING | Filler_TOOL_EXECUTION | Filler_THINKING | Filler_CREATING | Filler_SEARCHING

datatype call =
    Call_on_exit string
  | Call_on_enter string "HandoffData option"
  | Call_process_signal string
  | Call_prepare_handoff HandoffData
  | Call_consume_handoff "HandoffData option"
  | Call_send_filler FillerType string
  | Call_cancel_filler
  | Call_clear_audio
  | Call_stream_output Response
  | Call_send_text string string

record Orchestrator =
  ctx :: GlobalContext
  observer :: InterventionObserver
  p_agents :: "string \<rightharpoonup> AbstractAgent"
  p_active_agent :: "string option"
  p_running :: bool
  calls :: "call list"

definition Orchestrator_init :: "GlobalContext \<Rightarrow> InterventionObserver \<Rightarrow> Orchestrator" where
  "Orchestrator_init c obs =
     \<lparr>ctx = c, observer = obs, p_agents = Map.empty, p_active_agent = None,
      p_running = False, calls = []\<rparr>"

definition register_agent :: "AbstractAgent \<Rightarrow> Orchestrator \<Rightarrow> (exn + unit) \<times> Orchestrator" where
  "register_agent agent st =
     (if name agent \<in> dom (p_agents st) then
        (Inl (ValueError (''Agent '' @ [CHR 0x27] @ name agent @ [CHR 0x27]
                          @ '' is already registered'')), st)
      else
        let st = st\<lparr>p_agents := (p_agents st)(name agent \<mapsto> agent)\<rparr>
        in if name agent \<notin> set (available_agents (ctx st)) then
             (Inr (), st\<lparr>ctx := (ctx st)
                        \<lparr>available_agents := available_agents (ctx st) @ [name agent]\<rparr>\<rparr>)
           else (Inr (), st))"

definition get_agent :: "Orchestrator \<Rightarrow> string \<Rightarrow> AbstractAgent option" where
  "get_agent st nm = p_agents st nm"

text \<open>Calls on the agent stored under a key: the hook runs on the stored object.\<close>

definition call_on_exit :: "string \<Rightarrow> Orchestrator \<Rightarrow> Orchestrator" where
  "call_on_exit k st =
     st\<lparr>p_agents := (case p_agents st k of
                        None \<Rightarrow> p_agents st
                      | Some a \<Rightarrow> (p_agents st)(k \<mapsto> on_exit a)),
        calls := calls st @ [Call_on_exit k]\<rparr>"

definition call_on_enter :: "string \<Rightarrow> HandoffData option \<Rightarrow> Orchestrator \<Rightarrow> Orchestrator" where
  "call_on_enter k handoff st =
     st\<lparr>p_agents := (case p_agents st k of
                        None \<Rightarrow> p_agents st
                      | Some a \<Rightarrow> (p_agents st)(k \<mapsto> on_enter handoff a)),
        calls := calls st @ [Call_on_enter k handoff]\<rparr>"

text \<open>\<^verbatim>\<open>self._active_agent.name\<close>, for the agent stored under the key \<open>k\<close>.\<close>

definition agent_name_of :: "Orchestrator \<Rightarrow> string \<Rightarrow> string" where
  "agent_name_of st k = (case p_agents st k of Some a \<Rightarrow> name a | None \<Rightarrow> k)"

definition set_active_agent :: "nat \<Rightarrow> string \<Rightarrow> HandoffData option \<Rightarrow> Orchestrator \<Rightarrow> (exn + unit) \<times> Orchestrator" where
  "set_active_agent now agent_name' handoff st =
     (if agent_name' \<notin> dom (p_agents st) then
        (Inl (RoutingException
                (''Agent '' @ [CHR 0x27] @ agent_name' @ [CHR 0x27] @ '' not found'')
                (active_agent (session (ctx st))) agent_name'), st)
      else
        let st = (case p_active_agent st of
                    None \<Rightarrow> st
                  | Some k \<Rightarrow> call_on_exit k st);
            st = st\<lparr>p_active_agent := Some agent_name'\<rparr>;
            st = st\<lparr>ctx := (ctx st)
                        \<lparr>session := switch_agent now agent_name' (session (ctx st))\<rparr>\<rparr>;
            st = call_on_enter agent_name' handoff st
        in (Inr (), st))"

text \<open>\<^verbatim>\<open>self.context.session.prepare_handoff(...)\<close> as the orchestrator calls it.\<close>

definition orch_prepare_handoff :: "nat \<Rightarrow> string \<Rightarrow> string option \<Rightarrow> string option \<Rightarrow> Orchestrator \<Rightarrow> HandoffData \<times> Orchestrator" where
  "orch_prepare_handoff now target rsn intent st =
     (let (h, s) = prepare_handoff now target rsn intent (session (ctx st))
      in (h, st\<lparr>ctx := (ctx st)\<lparr>session := s\<rparr>,
                calls := calls st @ [Call_prepare_handoff h]\<rparr>))"

text \<open>
  \<^verbatim>\<open>if self.context.is_authenticated(): handoff.user_name = self.context.user.full_name\<close>.
  The handoff is the object in the session's slot, so the slot sees the assignment.
\<close>

definition attach_user_name :: "HandoffData \<Rightarrow> Orchestrator \<Rightarrow> HandoffData \<times> Orchestrator" where
  "attach_user_name h st =
     (if ctx_is_authenticated (ctx st) then
        let h = h\<lparr>user_name := full_name (user (ctx st))\<rparr>
        in (h, st\<lparr>ctx := (ctx st)
                     \<lparr>session := (session (ctx st))\<lparr>handoff_data := Some h\<rparr>\<rparr>\<rparr>)
      else (h, st))"

text \<open>
  \<^verbatim>\<open>Orchestrator._process_signal\<close>. \<open>agent_reply k signal ctx\<close> is what the abstract
  \<^verbatim>\<open>process_signal\<close> of the agent stored under \<open>k\<close> returns or raises.
\<close>

definition orch_process_signal :: "nat \<Rightarrow> Signal \<Rightarrow> (string \<Rightarrow> Signal \<Rightarrow> GlobalContext \<Rightarrow> exn + Response) \<Rightarrow> Orchestrator \<Rightarrow> (exn + Response) \<times> Orchestrator" where
  "orch_process_signal now signal agent_reply st =
     (case p_active_agent st of
        None \<Rightarrow> (Inl (RuntimeError ''No active agent''), st)
      | Some k0 \<Rightarrow>
          let st = st\<lparr>ctx := refresh_time now (ctx st)\<rparr>;
              st = (case signal of
                      TextSignal sid md c \<Rightarrow>
                        st\<lparr>ctx := (ctx st)
                              \<lparr>session := add_turn now ''user'' c None (session (ctx st))\<rparr>\<rparr>
                    | AudioSignal sid md a \<Rightarrow> st
                    | SystemSignal sid md e \<Rightarrow> st);
              (r, st) =
                (if \<not> ctx_is_authenticated (ctx st) then
                   if agent_name_of st k0 \<noteq> ''identity'' then
                     if ''identity'' \<in> dom (p_agents st) then
                       let (handoff, st) =
                             orch_prepare_handoff now ''identity''
                               (Some ''Authentication required'') None st
                       in set_active_agent now ''identity'' (Some handoff) st
                     else (Inr (), st)
                   else (Inr (), st)
                 else (Inr (), st))
          in case r of
               Inl e \<Rightarrow> (Inl e, st)
             | Inr u \<Rightarrow>
                 (case p_active_agent st of
                    None \<Rightarrow> (Inl (RuntimeError ''No active agent''), st)
                  | Some k \<Rightarrow>
                      (agent_reply k signal (ctx st),
                       st\<lparr>calls := calls st @ [Call_process_signal k]\<rparr>)))"

text \<open>
  The first statements of \<^verbatim>\<open>_process_signal\<close>, before the authentication check: the clock
  is refreshed and a signal with content is recorded as a user turn.
\<close>

definition pre_signal :: "nat \<Rightarrow> Signal \<Rightarrow> Orchestrator \<Rightarrow> Orchestrator" where
  "pre_signal now signal st =
     (let st = st\<lparr>ctx := refresh_time now (ctx st)\<rparr>
      in case signal of
           TextSignal sid md c \<Rightarrow>
             st\<lparr>ctx := (ctx st)\<lparr>session := add_turn now ''user'' c None (session (ctx st))\<rparr>\<rparr>
         | AudioSignal sid md a \<Rightarrow> st
         | SystemSignal sid md e \<Rightarrow> st)"

text \<open>The priority invariant of the \<^verbatim>\<open>tasks\<close> table: every stored row has a priority from 1 to 5.\<close>

definition priorities_clamped :: "Database \<Rightarrow> bool" where
  "priorities_clamped db = (\<forall>t \<in> ran (tasks db). 1 \<le> priority t \<and> priority t \<le> 5)"

section \<open>Properties\<close>

subsection \<open>Strings\<close>

lemma str_in_sublist: "str_in needle hay \<longleftrightarrow> sublist needle hay"
  by (induction hay) (auto simp: sublist_Cons_right)

lemma sublist_str_join: "p \<in> set ps \<Longrightarrow> sublist p (str_join sep ps)"
proof (induction sep ps rule: str_join.induct)
  case (1 sep)
  then show ?case by simp
next
  case (2 sep q)
  then show ?case by simp
next
  case (3 sep q r ps)
  show ?case
  proof (cases "p = q")
    case True
    then show ?thesis by simp
  next
    case False
    with 3 have "sublist p (str_join sep (r # ps))" by simp
    moreover have "sublist (str_join sep (r # ps)) ((q @ sep) @ str_join sep (r # ps))"
      by (rule sublist_append_leftI)
    ultimately have "sublist p ((q @ sep) @ str_join sep (r # ps))"
      by (rule sublist_order.order.trans)
    then show ?thesis by simp
  qed
qed

subsection \<open>Handoff injection\<close>

lemma split_lines_nonempty: "split_lines s \<noteq> []"
  by (induction s) (simp_all split: list.splits)

lemma split_lines_no_nl: "(\<forall>c \<in> set p. c \<noteq> CHR 0x0A) \<Longrightarrow> split_lines p = [p]"
  by (induction p) (auto split: list.splits)

lemma split_lines_append:
  "(\<forall>c \<in> set p. c \<noteq> CHR 0x0A) \<Longrightarrow> split_lines (p @ CHR 0x0A # rest) = p # split_lines rest"
  by (induction p) (simp_all split: list.splits)

lemma split_lines_join:
  "ps \<noteq> [] \<Longrightarrow> \<forall>p \<in> set ps. \<forall>c \<in> set p. c \<noteq> CHR 0x0A \<Longrightarrow>
     split_lines (str_join [CHR 0x0A] ps) = ps"
proof (induction "[CHR 0x0A]" ps rule: str_join.induct)
  case 1
  then show ?case by simp
next
  case (2 p)
  then show ?case by (simp add: split_lines_no_nl)
next
  case (3 p q ps)
  then show ?case by (simp add: split_lines_append)
qed

lemma str_join_Cons: "ps \<noteq> [] \<Longrightarrow> str_join sep (p # ps) = p @ sep @ str_join sep ps"
  by (cases ps) simp_all

lemma str_join_snoc: "ps \<noteq> [] \<Longrightarrow> str_join sep (ps @ [z]) = str_join sep ps @ sep @ z"
  by (induction sep ps rule: str_join.induct) simp_all

lemma in_append_field:
  "l \<in> set (append_field ps f fmt) \<longleftrightarrow>
     l \<in> set ps \<or> (\<exists>v. f = Some v \<and> v \<noteq> [] \<and> l = fmt v)"
  by (cases f) (auto simp: append_field_def)

lemma in_handoff_parts:
  "l \<in> set (handoff_parts h) \<longleftrightarrow>
     (\<exists>v. user_name h = Some v \<and> v \<noteq> [] \<and> l = ''User Name: '' @ v)
     \<or> (\<exists>v. user_intent h = Some v \<and> v \<noteq> [] \<and> l = ''Previous Intent: '' @ v)
     \<or> (\<exists>v. last_user_turn h = Some v \<and> v \<noteq> []
              \<and> l = ''Last User Message: '' @ [CHR 0x22] @ v @ [CHR 0x22])
     \<or> (hd_greeting_completed h \<and> l = greeting_note)
     \<or> (\<exists>v. reason h = Some v \<and> v \<noteq> [] \<and> l = ''Handoff Reason: '' @ v)"
  unfolding handoff_parts_def Let_def
  by (simp only: in_append_field set_append set_simps Un_iff insert_iff empty_iff
        if_distrib [of set] split: if_split) blast

lemma handoff_parts_empty:
  "handoff_parts h = [] \<longleftrightarrow>
     (\<not> truthy (user_name h) \<and> \<not> truthy (user_intent h) \<and> \<not> truthy (last_user_turn h)
      \<and> \<not> truthy (reason h) \<and> \<not> hd_greeting_completed h)"
  by (auto simp: handoff_parts_def Let_def append_field_def truthy_def split: option.splits)

lemma user_name_line:
  "''User Name: '' @ n \<in> set (handoff_parts h) \<longleftrightarrow> user_name h = Some n \<and> n \<noteq> []"
  unfolding in_handoff_parts by (simp add: greeting_note_def)

lemma user_intent_line:
  "''Previous Intent: '' @ i \<in> set (handoff_parts h) \<longleftrightarrow> user_intent h = Some i \<and> i \<noteq> []"
  unfolding in_handoff_parts by (simp add: greeting_note_def)

lemma last_user_turn_line:
  "''Last User Message: '' @ [CHR 0x22] @ t @ [CHR 0x22] \<in> set (handoff_parts h)
     \<longleftrightarrow> last_user_turn h = Some t \<and> t \<noteq> []"
  unfolding in_handoff_parts by (simp add: greeting_note_def)

lemma greeting_line:
  "greeting_note \<in> set (handoff_parts h) \<longleftrightarrow> hd_greeting_completed h"
  unfolding in_handoff_parts by (simp add: greeting_note_def)

lemma reason_line:
  "''Handoff Reason: '' @ r \<in> set (handoff_parts h) \<longleftrightarrow> reason h = Some r \<and> r \<noteq> []"
  unfolding in_handoff_parts by (simp add: greeting_note_def)


lemma handoff_parts_explicit:
  "handoff_parts h =
     (case user_name h of None \<Rightarrow> [] | Some n \<Rightarrow> if n = [] then [] else [''User Name: '' @ n])
     @ (case user_intent h of None \<Rightarrow> []
        | Some i \<Rightarrow> if i = [] then [] else [''Previous Intent: '' @ i])
     @ (case last_user_turn h of None \<Rightarrow> []
        | Some t \<Rightarrow> if t = [] then []
                   else [''Last User Message: '' @ [CHR 0x22] @ t @ [CHR 0x22]])
     @ (if hd_greeting_completed h then [greeting_note] else [])
     @ (case reason h of None \<Rightarrow> []
        | Some r \<Rightarrow> if r = [] then [] else [''Handoff Reason: '' @ r])"
  by (simp add: handoff_parts_def Let_def append_field_def split: option.splits)

lemma out_eq_join:
  "handoff_parts h \<noteq> [] \<Longrightarrow>
     to_context_injection h =
       str_join [CHR 0x0A] (''[HANDOFF CONTEXT]'' # handoff_parts h @ [''[END CONTEXT]''])"
  by (simp add: to_context_injection_def Let_def str_join_Cons str_join_snoc)

lemma literal_nl_free:
  "\<forall>c \<in> set ''User Name: ''. c \<noteq> CHR 0x0A"
  "\<forall>c \<in> set ''Previous Intent: ''. c \<noteq> CHR 0x0A"
  "\<forall>c \<in> set ''Last User Message: ''. c \<noteq> CHR 0x0A"
  "\<forall>c \<in> set ''Handoff Reason: ''. c \<noteq> CHR 0x0A"
  "\<forall>c \<in> set greeting_note. c \<noteq> CHR 0x0A"
  "\<forall>c \<in> set ''[HANDOFF CONTEXT]''. c \<noteq> CHR 0x0A"
  "\<forall>c \<in> set ''[END CONTEXT]''. c \<noteq> CHR 0x0A"
  by code_simp+

lemma nl_free_append:
  "(\<forall>c \<in> set (a @ b). c \<noteq> CHR 0x0A) \<longleftrightarrow>
     (\<forall>c \<in> set a. c \<noteq> CHR 0x0A) \<and> (\<forall>c \<in> set b. c \<noteq> CHR 0x0A)"
  by auto

lemma parts_nl_free:
  assumes "no_newline (user_name h)" "no_newline (user_intent h)"
    "no_newline (last_user_turn h)" "no_newline (reason h)"
    and l: "l \<in> set (handoff_parts h)"
  shows "\<forall>c \<in> set l. c \<noteq> CHR 0x0A"
proof -
  from l consider
      (a) v where "user_name h = Some v" "l = ''User Name: '' @ v"
    | (b) v where "user_intent h = Some v" "l = ''Previous Intent: '' @ v"
    | (c) v where "last_user_turn h = Some v"
        "l = ''Last User Message: '' @ [CHR 0x22] @ v @ [CHR 0x22]"
    | (d) "l = greeting_note"
    | (e) v where "reason h = Some v" "l = ''Handoff Reason: '' @ v"
    unfolding in_handoff_parts by blast
  then show ?thesis
  proof cases
    case a
    with assms(1) have "\<forall>c \<in> set v. c \<noteq> CHR 0x0A" by (simp add: no_newline_def)
    with literal_nl_free(1) show ?thesis unfolding a(2) nl_free_append by (rule conjI)
  next
    case b
    with assms(2) have "\<forall>c \<in> set v. c \<noteq> CHR 0x0A" by (simp add: no_newline_def)
    with literal_nl_free(2) show ?thesis unfolding b(2) nl_free_append by (rule conjI)
  next
    case c
    with assms(3) have "\<forall>c \<in> set v. c \<noteq> CHR 0x0A" by (simp add: no_newline_def)
    then have "\<forall>c \<in> set ([CHR 0x22] @ v @ [CHR 0x22]). c \<noteq> CHR 0x0A" by simp
    with literal_nl_free(3) show ?thesis unfolding c(2) nl_free_append [of "''Last User Message: ''"]
      by (rule conjI)
  next
    case d
    with literal_nl_free(5) show ?thesis by simp
  next
    case e
    with assms(4) have "\<forall>c \<in> set v. c \<noteq> CHR 0x0A" by (simp add: no_newline_def)
    with literal_nl_free(4) show ?thesis unfolding e(2) nl_free_append by (rule conjI)
  qed
qed

lemma split_out:
  assumes "no_newline (user_name h)" "no_newline (user_intent h)"
    "no_newline (last_user_turn h)" "no_newline (reason h)"
    and ne: "handoff_parts h \<noteq> []"
  shows "split_lines (to_context_injection h) =
           ''[HANDOFF CONTEXT]'' # handoff_parts h @ [''[END CONTEXT]'']"
proof -
  let ?ls = "''[HANDOFF CONTEXT]'' # handoff_parts h @ [''[END CONTEXT]'']"
  have free: "\<forall>p \<in> set ?ls. \<forall>c \<in> set p. c \<noteq> CHR 0x0A"
  proof
    fix p assume "p \<in> set ?ls"
    then have "p = ''[HANDOFF CONTEXT]'' \<or> p \<in> set (handoff_parts h) \<or> p = ''[END CONTEXT]''"
      by (simp only: set_simps set_append insert_iff Un_iff empty_iff) blast
    then show "\<forall>c \<in> set p. c \<noteq> CHR 0x0A"
    proof (elim disjE)
      assume "p = ''[HANDOFF CONTEXT]''"
      with literal_nl_free(6) show ?thesis by (simp only:)
    next
      assume "p \<in> set (handoff_parts h)"
      then show ?thesis by (rule parts_nl_free [OF assms(1-4)])
    next
      assume "p = ''[END CONTEXT]''"
      with literal_nl_free(7) show ?thesis by (simp only:)
    qed
  qed
  have "?ls \<noteq> []" by (simp only: list.distinct not_False_eq_True)
  from split_lines_join [OF this free] show ?thesis by (simp only: out_eq_join [OF ne])
qed

lemma line_in_out:
  assumes "no_newline (user_name h)" "no_newline (user_intent h)"
    "no_newline (last_user_turn h)" "no_newline (reason h)"
    and ne: "handoff_parts h \<noteq> []"
  shows "l \<in> set (split_lines (to_context_injection h)) \<longleftrightarrow>
           l = ''[HANDOFF CONTEXT]'' \<or> l \<in> set (handoff_parts h) \<or> l = ''[END CONTEXT]''"
  by (simp only: split_out [OF assms] set_simps set_append insert_iff Un_iff empty_iff) blast

lemma out_empty: "to_context_injection h = [] \<longleftrightarrow> handoff_parts h = []"
  by (simp add: to_context_injection_def Let_def)

lemma out_shape:
  "handoff_parts h \<noteq> [] \<Longrightarrow>
     to_context_injection h =
       ''[HANDOFF CONTEXT]'' @ [CHR 0x0A] @ str_join [CHR 0x0A] (handoff_parts h)
       @ [CHR 0x0A] @ ''[END CONTEXT]''"
  by (simp add: to_context_injection_def Let_def)

lemma out_prefix:
  "handoff_parts h \<noteq> [] \<Longrightarrow> prefix (''[HANDOFF CONTEXT]'' @ [CHR 0x0A]) (to_context_injection h)"
  by (simp add: out_shape)

lemma out_suffix:
  assumes "handoff_parts h \<noteq> []"
  shows "suffix ([CHR 0x0A] @ ''[END CONTEXT]'') (to_context_injection h)"
proof -
  have "to_context_injection h =
      (''[HANDOFF CONTEXT]'' @ [CHR 0x0A] @ str_join [CHR 0x0A] (handoff_parts h))
      @ ([CHR 0x0A] @ ''[END CONTEXT]'')"
    using out_shape [OF assms] by simp
  then show ?thesis by (rule suffixI)
qed

text \<open>
  C2 (as amended). The injection is the empty string exactly when no optional field is truthy
  (present and not the empty string) and the greeting flag is off. Otherwise it is the header
  \<^verbatim>\<open>[HANDOFF CONTEXT]\<close>, a newline, the lines below joined by newlines, a newline and the
  footer \<^verbatim>\<open>[END CONTEXT]\<close>; the lines are, in this order and once each, the User Name line
  when \<open>user_name\<close> is present and non-empty, the Previous Intent line when \<open>user_intent\<close>
  is present and non-empty, the Last User Message line when \<open>last_user_turn\<close> is present and
  non-empty, the greeting note when the greeting flag is on, and the Handoff Reason line when
  \<open>reason\<close> is present and non-empty. When no field value holds a newline character, the lines
  of the returned string are exactly the header, these lines and the footer, so the returned
  string contains each line exactly when its field is present and non-empty (the greeting
  note exactly when the flag is on).
\<close>

theorem to_context_injection_format:
  "(to_context_injection h = [] \<longleftrightarrow>
      (\<not> truthy (user_name h) \<and> \<not> truthy (user_intent h) \<and> \<not> truthy (last_user_turn h)
       \<and> \<not> truthy (reason h) \<and> \<not> hd_greeting_completed h))
   \<and> (to_context_injection h \<noteq> [] \<longrightarrow>
        to_context_injection h =
          ''[HANDOFF CONTEXT]'' @ [CHR 0x0A]
          @ str_join [CHR 0x0A]
              ((case user_name h of None \<Rightarrow> []
            | Some n \<Rightarrow> if n = [] then [] else [''User Name: '' @ n])
           @ (case user_intent h of None \<Rightarrow> []
              | Some i \<Rightarrow> if i = [] then [] else [''Previous Intent: '' @ i])
           @ (case last_user_turn h of None \<Rightarrow> []
              | Some t \<Rightarrow> if t = [] then []
                         else [''Last User Message: '' @ [CHR 0x22] @ t @ [CHR 0x22]])
           @ (if hd_greeting_completed h then [greeting_note] else [])
           @ (case reason h of None \<Rightarrow> []
              | Some r \<Rightarrow> if r = [] then [] else [''Handoff Reason: '' @ r]))
          @ [CHR 0x0A] @ ''[END CONTEXT]''
        \<and> prefix (''[HANDOFF CONTEXT]'' @ [CHR 0x0A]) (to_context_injection h)
        \<and> suffix ([CHR 0x0A] @ ''[END CONTEXT]'') (to_context_injection h))
   \<and> (to_context_injection h \<noteq> [] \<and> no_newline (user_name h) \<and> no_newline (user_intent h)
       \<and> no_newline (last_user_turn h) \<and> no_newline (reason h) \<longrightarrow>
        split_lines (to_context_injection h) =
          ''[HANDOFF CONTEXT]''
          # ((case user_name h of None \<Rightarrow> []
            | Some n \<Rightarrow> if n = [] then [] else [''User Name: '' @ n])
           @ (case user_intent h of None \<Rightarrow> []
              | Some i \<Rightarrow> if i = [] then [] else [''Previous Intent: '' @ i])
           @ (case last_user_turn h of None \<Rightarrow> []
              | Some t \<Rightarrow> if t = [] then []
                         else [''Last User Message: '' @ [CHR 0x22] @ t @ [CHR 0x22]])
           @ (if hd_greeting_completed h then [greeting_note] else [])
           @ (case reason h of None \<Rightarrow> []
              | Some r \<Rightarrow> if r = [] then [] else [''Handoff Reason: '' @ r]))
          @ [''[END CONTEXT]'']
        \<and> (\<forall>n. ''User Name: '' @ n \<in> set (split_lines (to_context_injection h))
               \<longleftrightarrow> user_name h = Some n \<and> n \<noteq> [])
        \<and> (\<forall>i. ''Previous Intent: '' @ i \<in> set (split_lines (to_context_injection h))
               \<longleftrightarrow> user_intent h = Some i \<and> i \<noteq> [])
        \<and> (\<forall>t. ''Last User Message: '' @ [CHR 0x22] @ t @ [CHR 0x22]
                 \<in> set (split_lines (to_context_injection h))
               \<longleftrightarrow> last_user_turn h = Some t \<and> t \<noteq> [])
        \<and> (greeting_note \<in> set (split_lines (to_context_injection h))
               \<longleftrightarrow> hd_greeting_completed h)
        \<and> (\<forall>r. ''Handoff Reason: '' @ r \<in> set (split_lines (to_context_injection h))
               \<longleftrightarrow> reason h = Some r \<and> r \<noteq> []))"
proof (intro conjI impI allI)
  show "to_context_injection h = [] \<longleftrightarrow>
      (\<not> truthy (user_name h) \<and> \<not> truthy (user_intent h) \<and> \<not> truthy (last_user_turn h)
       \<and> \<not> truthy (reason h) \<and> \<not> hd_greeting_completed h)"
    by (simp only: out_empty handoff_parts_empty)
next
  assume "to_context_injection h \<noteq> []"
  then have ne: "handoff_parts h \<noteq> []" by (simp add: out_empty)
  show "to_context_injection h =
          ''[HANDOFF CONTEXT]'' @ [CHR 0x0A]
          @ str_join [CHR 0x0A]
              ((case user_name h of None \<Rightarrow> []
            | Some n \<Rightarrow> if n = [] then [] else [''User Name: '' @ n])
           @ (case user_intent h of None \<Rightarrow> []
              | Some i \<Rightarrow> if i = [] then [] else [''Previous Intent: '' @ i])
           @ (case last_user_turn h of None \<Rightarrow> []
              | Some t \<Rightarrow> if t = [] then []
                         else [''Last User Message: '' @ [CHR 0x22] @ t @ [CHR 0x22]])
           @ (if hd_greeting_completed h then [greeting_note] else [])
           @ (case reason h of None \<Rightarrow> []
              | Some r \<Rightarrow> if r = [] then [] else [''Handoff Reason: '' @ r]))
          @ [CHR 0x0A] @ ''[END CONTEXT]''"
    using out_shape [OF ne] by (simp only: handoff_parts_explicit [symmetric])
  show "prefix (''[HANDOFF CONTEXT]'' @ [CHR 0x0A]) (to_context_injection h)"
    using ne by (rule out_prefix)
  show "suffix ([CHR 0x0A] @ ''[END CONTEXT]'') (to_context_injection h)"
    using ne by (rule out_suffix)
next
  assume a: "to_context_injection h \<noteq> [] \<and> no_newline (user_name h) \<and> no_newline (user_intent h)
       \<and> no_newline (last_user_turn h) \<and> no_newline (reason h)"
  then have ne: "handoff_parts h \<noteq> []" by (simp add: out_empty)
  from a have f: "no_newline (user_name h)" "no_newline (user_intent h)"
    "no_newline (last_user_turn h)" "no_newline (reason h)" by simp_all
  note lin = line_in_out [OF f ne]
  show "split_lines (to_context_injection h) =
          ''[HANDOFF CONTEXT]''
          # ((case user_name h of None \<Rightarrow> []
            | Some n \<Rightarrow> if n = [] then [] else [''User Name: '' @ n])
           @ (case user_intent h of None \<Rightarrow> []
              | Some i \<Rightarrow> if i = [] then [] else [''Previous Intent: '' @ i])
           @ (case last_user_turn h of None \<Rightarrow> []
              | Some t \<Rightarrow> if t = [] then []
                         else [''Last User Message: '' @ [CHR 0x22] @ t @ [CHR 0x22]])
           @ (if hd_greeting_completed h then [greeting_note] else [])
           @ (case reason h of None \<Rightarrow> []
              | Some r \<Rightarrow> if r = [] then [] else [''Handoff Reason: '' @ r]))
          @ [''[END CONTEXT]'']"
    using split_out [OF f ne] by (simp only: handoff_parts_explicit [symmetric])
  show "''User Name: '' @ n \<in> set (split_lines (to_context_injection h))
               \<longleftrightarrow> user_name h = Some n \<and> n \<noteq> []" for n
    by (simp only: lin user_name_line) simp
  show "''Previous Intent: '' @ i \<in> set (split_lines (to_context_injection h))
               \<longleftrightarrow> user_intent h = Some i \<and> i \<noteq> []" for i
    by (simp only: lin user_intent_line) simp
  show "''Last User Message: '' @ [CHR 0x22] @ t @ [CHR 0x22]
                 \<in> set (split_lines (to_context_injection h))
               \<longleftrightarrow> last_user_turn h = Some t \<and> t \<noteq> []" for t
    by (simp only: lin last_user_turn_line) simp
  show "greeting_note \<in> set (split_lines (to_context_injection h))
               \<longleftrightarrow> hd_greeting_completed h"
    by (simp only: lin greeting_line) (simp add: greeting_note_def)
  show "''Handoff Reason: '' @ r \<in> set (split_lines (to_context_injection h))
               \<longleftrightarrow> reason h = Some r \<and> r \<noteq> []" for r
    by (simp only: lin reason_line) simp
qed

theorem to_context_injection_format_witness:
  "to_context_injection
     \<lparr>source_agent = ''identity'', target_agent = ''task_manager'',
      last_user_turn = None, user_intent = None, user_name = Some ''Jane'',
      hd_greeting_completed = True, scratchpad_snapshot = Map.empty,
      reason = None, hd_timestamp = 0\<rparr> \<noteq> []
   \<and> no_newline (Some ''Jane'') \<and> no_newline None
   \<and> to_context_injection
     \<lparr>source_agent = ''identity'', target_agent = ''task_manager'',
      last_user_turn = None, user_intent = None, user_name = Some ''Jane'',
      hd_greeting_completed = True, scratchpad_snapshot = Map.empty,
      reason = None, hd_timestamp = 0\<rparr>
     = ''[HANDOFF CONTEXT]'' @ [CHR 0x0A] @ ''User Name: Jane'' @ [CHR 0x0A] @ greeting_note
       @ [CHR 0x0A] @ ''[END CONTEXT]''
   \<and> split_lines (to_context_injection
     \<lparr>source_agent = ''identity'', target_agent = ''task_manager'',
      last_user_turn = None, user_intent = None, user_name = Some ''Jane'',
      hd_greeting_completed = True, scratchpad_snapshot = Map.empty,
      reason = None, hd_timestamp = 0\<rparr>)
     = [''[HANDOFF CONTEXT]'', ''User Name: Jane'', greeting_note, ''[END CONTEXT]'']
   \<and> ''User Name: '' @ ''Jane'' \<in> set (split_lines (to_context_injection
     \<lparr>source_agent = ''identity'', target_agent = ''task_manager'',
      last_user_turn = None, user_intent = None, user_name = Some ''Jane'',
      hd_greeting_completed = True, scratchpad_snapshot = Map.empty,
      reason = None, hd_timestamp = 0\<rparr>))"
proof -
  let ?h = "\<lparr>source_agent = ''identity'', target_agent = ''task_manager'',
      last_user_turn = None, user_intent = None, user_name = Some ''Jane'',
      hd_greeting_completed = True, scratchpad_snapshot = Map.empty,
      reason = None, hd_timestamp = 0\<rparr>"
  note fmt = to_context_injection_format [of ?h]
  have ne: "to_context_injection ?h \<noteq> []"
    using fmt [THEN conjunct1] by (simp add: truthy_def)
  have nn: "no_newline (Some ''Jane'')" "no_newline None"
    by (simp_all add: no_newline_def)
  have a: "to_context_injection ?h \<noteq> [] \<and> no_newline (user_name ?h)
      \<and> no_newline (user_intent ?h) \<and> no_newline (last_user_turn ?h)
      \<and> no_newline (reason ?h)"
    using ne nn by simp
  have shape: "to_context_injection ?h =
      ''[HANDOFF CONTEXT]'' @ [CHR 0x0A] @ ''User Name: Jane'' @ [CHR 0x0A] @ greeting_note
       @ [CHR 0x0A] @ ''[END CONTEXT]''"
    using fmt [THEN conjunct2, THEN conjunct1, THEN mp, OF ne, THEN conjunct1]
    by simp
  note p3 = fmt [THEN conjunct2, THEN conjunct2, THEN mp, OF a]
  have lines: "split_lines (to_context_injection ?h)
     = [''[HANDOFF CONTEXT]'', ''User Name: Jane'', greeting_note, ''[END CONTEXT]'']"
    using p3 [THEN conjunct1] by simp
  have mem: "''User Name: '' @ ''Jane'' \<in> set (split_lines (to_context_injection ?h))"
    using p3 [THEN conjunct2, THEN conjunct1, THEN spec, of "''Jane''"] by simp
  from ne nn shape lines mem show ?thesis by (intro conjI)
qed

text \<open>
  C2 as stated fails in two ways. A field that is present but holds the empty string is
  treated like an absent one: the orchestrator passes \<^verbatim>\<open>reason=""\<close> when a transfer call
  carries no reason, and with nothing else set the injection is empty although \<open>reason\<close> is
  present. And field values are pasted unescaped: with \<open>reason\<close> absent and a \<open>user_intent\<close>
  that holds a newline followed by \<^verbatim>\<open>Handoff Reason: y\<close>, the returned string has the line
  \<^verbatim>\<open>Handoff Reason: y\<close> and is the very string returned for intent \<^verbatim>\<open>x\<close> and reason \<^verbatim>\<open>y\<close>.
\<close>

theorem to_context_injection_counterexample:
  "reason \<lparr>source_agent = ''router'', target_agent = ''task_manager'',
      last_user_turn = None, user_intent = None, user_name = None,
      hd_greeting_completed = False, scratchpad_snapshot = Map.empty,
      reason = Some [], hd_timestamp = 0\<rparr> \<noteq> None
   \<and> to_context_injection
     \<lparr>source_agent = ''router'', target_agent = ''task_manager'',
      last_user_turn = None, user_intent = None, user_name = None,
      hd_greeting_completed = False, scratchpad_snapshot = Map.empty,
      reason = Some [], hd_timestamp = 0\<rparr> = []
   \<and> reason \<lparr>source_agent = ''router'', target_agent = ''task_manager'',
      last_user_turn = None,
      user_intent = Some (''x'' @ [CHR 0x0A] @ ''Handoff Reason: y''),
      user_name = None,
      hd_greeting_completed = False, scratchpad_snapshot = Map.empty,
      reason = None, hd_timestamp = 0\<rparr> = None
   \<and> ''Handoff Reason: y'' \<in> set (split_lines (to_context_injection
     \<lparr>source_agent = ''router'', target_agent = ''task_manager'',
      last_user_turn = None,
      user_intent = Some (''x'' @ [CHR 0x0A] @ ''Handoff Reason: y''),
      user_name = None,
      hd_greeting_completed = False, scratchpad_snapshot = Map.empty,
      reason = None, hd_timestamp = 0\<rparr>))
   \<and> to_context_injection
     \<lparr>source_agent = ''router'', target_agent = ''task_manager'',
      last_user_turn = None,
      user_intent = Some (''x'' @ [CHR 0x0A] @ ''Handoff Reason: y''),
      user_name = None,
      hd_greeting_completed = False, scratchpad_snapshot = Map.empty,
      reason = None, hd_timestamp = 0\<rparr>
     = to_context_injection
     \<lparr>source_agent = ''router'', target_agent = ''task_manager'',
      last_user_turn = None, user_intent = Some ''x'', user_name = None,
      hd_greeting_completed = False, scratchpad_snapshot = Map.empty,
      reason = Some ''y'', hd_timestamp = 0\<rparr>"
proof (intro conjI)
  show "reason \<lparr>source_agent = ''router'', target_agent = ''task_manager'',
      last_user_turn = None, user_intent = None, user_name = None,
      hd_greeting_completed = False, scratchpad_snapshot = Map.empty,
      reason = Some [], hd_timestamp = 0\<rparr> \<noteq> None" by simp
  show "to_context_injection
     \<lparr>source_agent = ''router'', target_agent = ''task_manager'',
      last_user_turn = None, user_intent = None, user_name = None,
      hd_greeting_completed = False, scratchpad_snapshot = Map.empty,
      reason = Some [], hd_timestamp = 0\<rparr> = []"
    by (simp add: to_context_injection_def handoff_parts_def Let_def append_field_def)
  show "reason \<lparr>source_agent = ''router'', target_agent = ''task_manager'',
      last_user_turn = None,
      user_intent = Some (''x'' @ [CHR 0x0A] @ ''Handoff Reason: y''),
      user_name = None,
      hd_greeting_completed = False, scratchpad_snapshot = Map.empty,
      reason = None, hd_timestamp = 0\<rparr> = None" by simp
  have out: "to_context_injection
     \<lparr>source_agent = ''router'', target_agent = ''task_manager'',
      last_user_turn = None,
      user_intent = Some (''x'' @ [CHR 0x0A] @ ''Handoff Reason: y''),
      user_name = None,
      hd_greeting_completed = False, scratchpad_snapshot = Map.empty,
      reason = None, hd_timestamp = 0\<rparr>
     = ''[HANDOFF CONTEXT]'' @ [CHR 0x0A] @ ''Previous Intent: x'' @ [CHR 0x0A]
       @ ''Handoff Reason: y'' @ [CHR 0x0A] @ ''[END CONTEXT]''"
    by (simp add: to_context_injection_def handoff_parts_def Let_def append_field_def)
  have sp: "split_lines (''[HANDOFF CONTEXT]'' @ [CHR 0x0A] @ ''Previous Intent: x'' @ [CHR 0x0A]
       @ ''Handoff Reason: y'' @ [CHR 0x0A] @ ''[END CONTEXT]'')
     = [''[HANDOFF CONTEXT]'', ''Previous Intent: x'', ''Handoff Reason: y'', ''[END CONTEXT]'']"
    by code_simp
  show "''Handoff Reason: y'' \<in> set (split_lines (to_context_injection
     \<lparr>source_agent = ''router'', target_agent = ''task_manager'',
      last_user_turn = None,
      user_intent = Some (''x'' @ [CHR 0x0A] @ ''Handoff Reason: y''),
      user_name = None,
      hd_greeting_completed = False, scratchpad_snapshot = Map.empty,
      reason = None, hd_timestamp = 0\<rparr>))"
    by (simp only: out sp) simp
  have out3: "to_context_injection
     \<lparr>source_agent = ''router'', target_agent = ''task_manager'',
      last_user_turn = None, user_intent = Some ''x'', user_name = None,
      hd_greeting_completed = False, scratchpad_snapshot = Map.empty,
      reason = Some ''y'', hd_timestamp = 0\<rparr>
     = ''[HANDOFF CONTEXT]'' @ [CHR 0x0A] @ ''Previous Intent: x'' @ [CHR 0x0A]
       @ ''Handoff Reason: y'' @ [CHR 0x0A] @ ''[END CONTEXT]''"
    by (simp add: to_context_injection_def handoff_parts_def Let_def append_field_def)
  show "to_context_injection
     \<lparr>source_agent = ''router'', target_agent = ''task_manager'',
      last_user_turn = None,
      user_intent = Some (''x'' @ [CHR 0x0A] @ ''Handoff Reason: y''),
      user_name = None,
      hd_greeting_completed = False, scratchpad_snapshot = Map.empty,
      reason = None, hd_timestamp = 0\<rparr>
     = to_context_injection
     \<lparr>source_agent = ''router'', target_agent = ''task_manager'',
      last_user_turn = None, user_intent = Some ''x'', user_name = None,
      hd_greeting_completed = False, scratchpad_snapshot = Map.empty,
      reason = Some ''y'', hd_timestamp = 0\<rparr>"
    by (simp only: out out3)
qed

subsection \<open>Router\<close>

lemma transfer_call_route_find:
  "transfer_call_route nm sid txt tcs =
     (case find (\<lambda>c. tool_name c = ''transfer_agent'') tcs of
        None \<Rightarrow> None
      | Some tc \<Rightarrow>
          (case arguments tc ''reason'' of
             None \<Rightarrow>
               Some (Inr (routing_response sid nm
                  \<lparr>thought_process = [],
                   route_to = (case arguments tc ''target_agent_name'' of
                                 Some (JStr t) \<Rightarrow> if t \<in> set VALID_TARGETS then t else ''task_manager''
                               | _ \<Rightarrow> ''task_manager''),
                   handover_context = Some txt, rd_priority = 0\<rparr>))
           | Some (JStr r) \<Rightarrow>
               Some (Inr (routing_response sid nm
                  \<lparr>thought_process = r,
                   route_to = (case arguments tc ''target_agent_name'' of
                                 Some (JStr t) \<Rightarrow> if t \<in> set VALID_TARGETS then t else ''task_manager''
                               | _ \<Rightarrow> ''task_manager''),
                   handover_context = Some txt, rd_priority = 0\<rparr>))
           | Some _ \<Rightarrow> Some (Inl (ValidationError ''thought_process''))))"
  by (induction tcs) (simp_all add: Let_def split: option.splits jvalue.splits)

lemma route_to_routing_response:
  "map_option route_to (routing_decision (routing_response sid nm d)) = Some (route_to d)"
  by (simp add: routing_response_def)

lemma route_to_fallback:
  "map_option route_to (routing_decision (fallback_routing nm sid)) = Some ''task_manager''"
  by (simp add: fallback_routing_def routing_response_def)

lemma transfer_call_route_hit:
  assumes "find (\<lambda>c. tool_name c = ''transfer_agent'') tcs = Some tc"
  shows "transfer_call_route nm sid txt tcs =
     (if (case arguments tc ''reason'' of None \<Rightarrow> True | Some v \<Rightarrow> is_str v) then
        Some (Inr (routing_response sid nm
                \<lparr>thought_process = (case arguments tc ''reason'' of Some (JStr r) \<Rightarrow> r | _ \<Rightarrow> []),
                 route_to = valid_target tc,
                 handover_context = Some txt, rd_priority = 0\<rparr>))
      else Some (Inl (ValidationError ''thought_process'')))"
proof (cases "arguments tc ''reason''")
  case None
  then show ?thesis by (simp add: transfer_call_route_find assms valid_target_def)
next
  case (Some v)
  then show ?thesis
    by (cases v) (simp_all add: transfer_call_route_find assms valid_target_def)
qed

lemma valid_target_eq:
  "valid_target tc =
     (case arguments tc ''target_agent_name'' of
        Some (JStr t) \<Rightarrow>
          if t = ''identity'' \<or> t = ''task_manager'' \<or> t = ''router''
          then t else ''task_manager''
      | _ \<Rightarrow> ''task_manager'')"
  by (simp add: valid_target_def VALID_TARGETS_def split: option.splits jvalue.splits)

lemma routing_decision_routing_response:
  "routing_decision (routing_response sid nm d) = Some d"
  by (simp add: routing_response_def)

lemma routing_decision_fallback:
  "routing_decision (fallback_routing nm sid) =
     Some \<lparr>thought_process = ''Fallback routing'', route_to = ''task_manager'',
           handover_context = None, rd_priority = 0\<rparr>"
  by (simp add: fallback_routing_def routing_response_def)

lemma llm_route_hit:
  assumes "llm_tool_calls r = Some tcs"
    and "find (\<lambda>c. tool_name c = ''transfer_agent'') tcs = Some tc"
  shows "map_option route_to (routing_decision (llm_route nm signal (Inr r)))
     = Some (if (case arguments tc ''reason'' of None \<Rightarrow> True | Some v \<Rightarrow> is_str v)
             then valid_target tc else ''task_manager'')"
  by (simp add: llm_route_def Let_def assms(1) transfer_call_route_hit [OF assms(2)]
        routing_decision_routing_response routing_decision_fallback)

text \<open>
  C3 (as amended). In the LLM fallback, the first \<^verbatim>\<open>transfer_agent\<close> call decides the
  route. When its \<^verbatim>\<open>reason\<close> is a string or missing, the decision routes to the call's
  \<^verbatim>\<open>target_agent_name\<close> if that is one of the strings \<^verbatim>\<open>identity\<close>, \<^verbatim>\<open>task_manager\<close>,
  \<^verbatim>\<open>router\<close> (the three \<open>VALID_TARGETS\<close>), and to \<^verbatim>\<open>task_manager\<close> for every other or
  missing target. When its \<^verbatim>\<open>reason\<close> is present and not a string, building the decision
  raises, the exception is caught, and the fallback decision routes to \<^verbatim>\<open>task_manager\<close>.
  When the model returns no \<^verbatim>\<open>transfer_agent\<close> call and a non-empty text, the decision
  routes to \<^verbatim>\<open>identity\<close> if the lowercased text contains \<^verbatim>\<open>identity\<close> or \<^verbatim>\<open>auth\<close>, and to
  \<^verbatim>\<open>task_manager\<close> otherwise.
\<close>

theorem llm_route_target:
  "(llm_tool_calls r = Some tcs \<and> find (\<lambda>c. tool_name c = ''transfer_agent'') tcs = Some tc
      \<longrightarrow> map_option route_to (routing_decision (llm_route nm signal (Inr r)))
            = Some (if (case arguments tc ''reason'' of None \<Rightarrow> True | Some v \<Rightarrow> is_str v)
                    then (case arguments tc ''target_agent_name'' of
                            Some (JStr t) \<Rightarrow>
                              if t = ''identity'' \<or> t = ''task_manager'' \<or> t = ''router''
                              then t else ''task_manager''
                          | _ \<Rightarrow> ''task_manager'')
                    else ''task_manager''))
   \<and> ((llm_tool_calls r = None
         \<or> (\<exists>tcs. llm_tool_calls r = Some tcs
                \<and> find (\<lambda>c. tool_name c = ''transfer_agent'') tcs = None))
        \<and> llm_text r = Some t \<and> t \<noteq> []
      \<longrightarrow> map_option route_to (routing_decision (llm_route nm signal (Inr r)))
            = Some (if str_in ''identity'' (str_lower t) \<or> str_in ''auth'' (str_lower t)
                    then ''identity'' else ''task_manager''))"
proof (intro conjI impI)
  assume "llm_tool_calls r = Some tcs \<and> find (\<lambda>c. tool_name c = ''transfer_agent'') tcs = Some tc"
  then show "map_option route_to (routing_decision (llm_route nm signal (Inr r)))
            = Some (if (case arguments tc ''reason'' of None \<Rightarrow> True | Some v \<Rightarrow> is_str v)
                    then (case arguments tc ''target_agent_name'' of
                            Some (JStr t) \<Rightarrow>
                              if t = ''identity'' \<or> t = ''task_manager'' \<or> t = ''router''
                              then t else ''task_manager''
                          | _ \<Rightarrow> ''task_manager'')
                    else ''task_manager'')"
    by (simp only: llm_route_hit valid_target_eq)
next
  assume a: "(llm_tool_calls r = None
         \<or> (\<exists>tcs. llm_tool_calls r = Some tcs
                \<and> find (\<lambda>c. tool_name c = ''transfer_agent'') tcs = None))
        \<and> llm_text r = Some t \<and> t \<noteq> []"
  then have "llm_route nm signal (Inr r) = parse_text_routing nm t (signal_session_id signal)"
    by (auto simp: llm_route_def Let_def transfer_call_route_find)
  then show "map_option route_to (routing_decision (llm_route nm signal (Inr r)))
            = Some (if str_in ''identity'' (str_lower t) \<or> str_in ''auth'' (str_lower t)
                    then ''identity'' else ''task_manager'')"
    by (simp add: parse_text_routing_def Let_def route_to_routing_response)
qed

theorem llm_route_target_witness:
  "map_option route_to (routing_decision
     (llm_route ''router'' (TextSignal ''s1'' Map.empty ''hello'')
        (Inr \<lparr>llm_text = None,
              llm_tool_calls = Some [\<lparr>tool_name = ''transfer_agent'',
                 arguments = [''target_agent_name'' \<mapsto> JStr ''identity'',
                              ''reason'' \<mapsto> JStr ''login''],
                 call_id = ''c1''\<rparr>]\<rparr>)))
   = Some ''identity''"
proof -
  let ?tc = "\<lparr>tool_name = ''transfer_agent'',
                 arguments = [''target_agent_name'' \<mapsto> JStr ''identity'',
                              ''reason'' \<mapsto> JStr ''login''],
                 call_id = ''c1''\<rparr>"
  let ?r = "\<lparr>llm_text = None, llm_tool_calls = Some [?tc]\<rparr>"
  have hyp: "llm_tool_calls ?r = Some [?tc]
             \<and> find (\<lambda>c. tool_name c = ''transfer_agent'') [?tc] = Some ?tc"
    by simp
  from llm_route_target [where r = "?r" and tcs = "[?tc]" and tc = "?tc" and nm = "''router''"
         and signal = "TextSignal ''s1'' Map.empty ''hello''", THEN conjunct1, THEN mp, OF hyp]
  show ?thesis by simp
qed

text \<open>
  C3 as stated fails twice. A call that names \<^verbatim>\<open>router\<close>, which is neither \<^verbatim>\<open>identity\<close>
  nor \<^verbatim>\<open>task_manager\<close>, is routed to \<^verbatim>\<open>router\<close>. A call that names \<^verbatim>\<open>identity\<close> and
  carries a \<^verbatim>\<open>reason\<close> that is not a string is routed to \<^verbatim>\<open>task_manager\<close>.
\<close>

theorem llm_route_target_counterexample:
  "map_option route_to (routing_decision
     (llm_route ''router'' (TextSignal ''s1'' Map.empty ''hello'')
        (Inr \<lparr>llm_text = None,
              llm_tool_calls = Some [\<lparr>tool_name = ''transfer_agent'',
                 arguments = [''target_agent_name'' \<mapsto> JStr ''router''],
                 call_id = ''c1''\<rparr>]\<rparr>)))
   = Some ''router''
   \<and> map_option route_to (routing_decision
     (llm_route ''router'' (TextSignal ''s1'' Map.empty ''hello'')
        (Inr \<lparr>llm_text = None,
              llm_tool_calls = Some [\<lparr>tool_name = ''transfer_agent'',
                 arguments = [''target_agent_name'' \<mapsto> JStr ''identity'',
                              ''reason'' \<mapsto> JNull],
                 call_id = ''c1''\<rparr>]\<rparr>)))
   = Some ''task_manager''"
  by (simp add: llm_route_def Let_def truthy_def extract_text_def VALID_TARGETS_def
        routing_response_def fallback_routing_def)


subsection \<open>Task repository\<close>

lemma priorities_clamped_upd:
  "priorities_clamped db \<Longrightarrow> 1 \<le> priority t \<Longrightarrow> priority t \<le> 5 \<Longrightarrow>
     priorities_clamped (db\<lparr>tasks := (tasks db)(k \<mapsto> t)\<rparr>)"
  unfolding priorities_clamped_def
  by (auto simp: ran_def split: if_splits)

lemma priorities_clamped_lookup:
  "priorities_clamped db \<Longrightarrow> tasks db k = Some t \<Longrightarrow> 1 \<le> priority t \<and> priority t \<le> 5"
  unfolding priorities_clamped_def by (auto simp: ran_def)

lemma create_clamped: "priorities_clamped db \<Longrightarrow> priorities_clamped (snd (create db now nid uid d p due))"
  by (auto simp: create_def Let_def intro!: priorities_clamped_upd)

lemma apply_update_priority:
  "priority (apply_update kw t) = (case upd_priority kw of None \<Rightarrow> priority t | Some q \<Rightarrow> q)"
  by (simp add: apply_update_def Let_def split: option.splits)

lemma apply_update_status:
  "status (apply_update kw t) = (case upd_status kw of None \<Rightarrow> status t | Some s \<Rightarrow> s)"
  by (simp add: apply_update_def Let_def split: option.splits)

lemma update_clamped: "priorities_clamped db \<Longrightarrow> priorities_clamped (snd (update db now tid kw))"
  by (auto simp: update_def update_row_def Let_def apply_update_priority
        dest: priorities_clamped_lookup intro!: priorities_clamped_upd
        split: option.splits)

lemma update_priority_written:
  "update db now tid kw = (Inr (Some t'), db'') \<Longrightarrow> upd_priority kw = Some q \<Longrightarrow>
     priority t' = max 1 (min 5 q)"
  by (auto simp: update_def update_row_def get_by_id_def Let_def apply_update_priority
        split: option.splits if_splits)

text \<open>
  C4. When \<open>create\<close> returns a task, \<open>get_by_id\<close> on its id yields that task, with the
  description given, the priority clamped to \<open>max 1 (min 5 p)\<close> and status \<^verbatim>\<open>OPEN\<close>; it
  does return a task when the generated id is fresh and the owner passes the foreign key.
  \<open>create\<close> and \<open>update\<close> keep every stored priority between 1 and 5, and a priority
  handed to \<open>update\<close> is stored clamped.
\<close>

theorem task_create_get_priority_clamp:
  "(create db now nid uid d p due = (Inr t, db') \<longrightarrow>
      get_by_id db' (task_id t) = Some t \<and> description t = d
      \<and> priority t = max 1 (min 5 p) \<and> status t = ''OPEN''
      \<and> 1 \<le> priority t \<and> priority t \<le> 5)
   \<and> (nid \<notin> dom (tasks db) \<and> (enforce_fk db \<longrightarrow> uid \<in> users db) \<longrightarrow>
        (\<exists>t db'. create db now nid uid d p due = (Inr t, db')))
   \<and> (priorities_clamped db \<longrightarrow> priorities_clamped (snd (create db now nid uid d p due)))
   \<and> (priorities_clamped db \<longrightarrow> priorities_clamped (snd (update db now tid kw)))
   \<and> (update db now tid kw = (Inr (Some t'), db'') \<and> upd_priority kw = Some q \<longrightarrow>
        priority t' = max 1 (min 5 q) \<and> 1 \<le> priority t' \<and> priority t' \<le> 5)"
proof (intro conjI impI)
  assume "create db now nid uid d p due = (Inr t, db')"
  then have t: "t = \<lparr>task_id = nid, task_user_id = uid, description = d,
                  priority = max 1 (min 5 p), status = ''OPEN'', due_date = due,
                  task_created_at = now, task_updated_at = now\<rparr>"
    and db': "db' = db\<lparr>tasks := (tasks db)(nid \<mapsto> t)\<rparr>"
    by (auto simp: create_def Let_def split: if_splits)
  show "get_by_id db' (task_id t) = Some t" by (simp add: db' get_by_id_def) (simp add: t)
  show "description t = d" by (simp add: t)
  show "priority t = max 1 (min 5 p)" by (simp add: t)
  show "status t = ''OPEN''" by (simp add: t)
  show "1 \<le> priority t" by (simp add: t)
  show "priority t \<le> 5" by (simp add: t)
next
  assume "nid \<notin> dom (tasks db) \<and> (enforce_fk db \<longrightarrow> uid \<in> users db)"
  then show "\<exists>t db'. create db now nid uid d p due = (Inr t, db')"
    by (auto simp: create_def Let_def)
next
  assume "priorities_clamped db"
  then show "priorities_clamped (snd (create db now nid uid d p due))" by (rule create_clamped)
next
  assume "priorities_clamped db"
  then show "priorities_clamped (snd (update db now tid kw))" by (rule update_clamped)
next
  assume a: "update db now tid kw = (Inr (Some t'), db'') \<and> upd_priority kw = Some q"
  then show p: "priority t' = max 1 (min 5 q)" by (auto dest: update_priority_written)
  show "1 \<le> priority t'" by (simp add: p)
  show "priority t' \<le> 5" by (simp add: p)
qed

theorem task_create_get_priority_clamp_witness:
  "(\<exists>t db'. create \<lparr>users = {''u1''}, tasks = Map.empty, enforce_fk = True\<rparr> 7 ''t1'' ''u1''
               ''call mum'' 9 None = (Inr t, db')
            \<and> get_by_id db' ''t1'' = Some t \<and> description t = ''call mum''
            \<and> priority t = 5 \<and> status t = ''OPEN'')
   \<and> priorities_clamped
        (snd (create \<lparr>users = {''u1''}, tasks = Map.empty, enforce_fk = True\<rparr> 7 ''t1'' ''u1''
               ''call mum'' 9 None))"
proof -
  let ?db = "\<lparr>users = {''u1''}, tasks = Map.empty, enforce_fk = True\<rparr>"
  note inst = task_create_get_priority_clamp
    [where db = "?db" and now = 7 and nid = "''t1''" and uid = "''u1''" and d = "''call mum''"
       and p = 9 and due = None]
  have fresh: "''t1'' \<notin> dom (tasks ?db) \<and> (enforce_fk ?db \<longrightarrow> ''u1'' \<in> users ?db)" by simp
  have inv: "priorities_clamped ?db" by (simp add: priorities_clamped_def)
  from inst [THEN conjunct2, THEN conjunct1] fresh
  obtain t db' where c: "create ?db 7 ''t1'' ''u1'' ''call mum'' 9 None = (Inr t, db')" by blast
  have tid: "task_id t = ''t1''" using c by (auto simp: create_def Let_def)
  from inst [where t = t and db' = db', THEN conjunct1] c
  have "get_by_id db' (task_id t) = Some t \<and> description t = ''call mum''
      \<and> priority t = max 1 (min 5 9) \<and> status t = ''OPEN''" by blast
  then have rt: "get_by_id db' ''t1'' = Some t \<and> description t = ''call mum''
      \<and> priority t = 5 \<and> status t = ''OPEN''" by (simp add: tid)
  from inst [THEN conjunct2, THEN conjunct2, THEN conjunct1] inv
  have "priorities_clamped (snd (create ?db 7 ''t1'' ''u1'' ''call mum'' 9 None))" by blast
  with c rt show ?thesis by blast
qed

lemma update_status_error:
  "(\<exists>e. fst (update_status db now tid s) = Inl e) \<longleftrightarrow> s \<notin> valid_statuses"
  by (simp add: update_status_def Let_def)

lemma update_error:
  "(\<exists>e. fst (update db now tid kw) = Inl e) \<longleftrightarrow> (\<exists>s. upd_status kw = Some s \<and> s \<notin> valid_statuses)"
  by (auto simp: update_def Let_def split: option.splits if_splits)

text \<open>
  C5. \<open>update_status\<close> raises exactly when the status is not one of \<^verbatim>\<open>OPEN\<close>,
  \<^verbatim>\<open>IN_PROGRESS\<close>, \<^verbatim>\<open>COMPLETED\<close>, \<^verbatim>\<open>CANCELLED\<close>, and what it raises is the \<open>ValueError\<close>,
  with the table untouched; \<open>update\<close> raises exactly when a status is supplied and is not
  one of the four. With a valid status and an existing task, the call returns the stored
  task and its status is the one supplied.
\<close>

theorem status_validation:
  "((\<exists>e. fst (update_status db now tid s) = Inl e) \<longleftrightarrow> s \<notin> valid_statuses)
   \<and> (s \<notin> valid_statuses \<longrightarrow>
        update_status db now tid s = (Inl (ValueError (''Invalid status: '' @ s)), db))
   \<and> (s \<in> valid_statuses \<and> tasks db tid \<noteq> None \<longrightarrow>
        (\<exists>t db'. update_status db now tid s = (Inr (Some t), db')
                  \<and> get_by_id db' tid = Some t \<and> status t = s))
   \<and> ((\<exists>e. fst (update db now tid kw) = Inl e) \<longleftrightarrow>
          (\<exists>s'. upd_status kw = Some s' \<and> s' \<notin> valid_statuses))
   \<and> (upd_status kw = Some s \<and> s \<notin> valid_statuses \<longrightarrow>
        update db now tid kw = (Inl (ValueError (''Invalid status: '' @ s)), db))
   \<and> (upd_status kw = Some s \<and> s \<in> valid_statuses \<and> tasks db tid \<noteq> None \<longrightarrow>
        (\<exists>t db'. update db now tid kw = (Inr (Some t), db')
                  \<and> get_by_id db' tid = Some t \<and> status t = s))"
proof (intro conjI impI)
  show "(\<exists>e. fst (update_status db now tid s) = Inl e) \<longleftrightarrow> s \<notin> valid_statuses"
    by (rule update_status_error)
  show "(\<exists>e. fst (update db now tid kw) = Inl e) \<longleftrightarrow>
          (\<exists>s'. upd_status kw = Some s' \<and> s' \<notin> valid_statuses)"
    by (rule update_error)
next
  assume "s \<notin> valid_statuses"
  then show "update_status db now tid s = (Inl (ValueError (''Invalid status: '' @ s)), db)"
    by (simp add: update_status_def)
next
  assume "s \<in> valid_statuses \<and> tasks db tid \<noteq> None"
  then show "\<exists>t db'. update_status db now tid s = (Inr (Some t), db')
                  \<and> get_by_id db' tid = Some t \<and> status t = s"
    by (auto simp: update_status_def update_row_def get_by_id_def Let_def)
next
  assume "upd_status kw = Some s \<and> s \<notin> valid_statuses"
  then show "update db now tid kw = (Inl (ValueError (''Invalid status: '' @ s)), db)"
    by (auto simp: update_def Let_def split: option.splits)
next
  assume "upd_status kw = Some s \<and> s \<in> valid_statuses \<and> tasks db tid \<noteq> None"
  then show "\<exists>t db'. update db now tid kw = (Inr (Some t), db')
                  \<and> get_by_id db' tid = Some t \<and> status t = s"
    by (auto simp: update_def update_row_def get_by_id_def Let_def apply_update_status
          split: option.splits)
qed

theorem status_validation_witness:
  "(\<exists>t db'. update_status
        \<lparr>users = {''u1''},
         tasks = [''t1'' \<mapsto> \<lparr>task_id = ''t1'', task_user_id = ''u1'', description = ''call mum'',
                    priority = 3, status = ''OPEN'', due_date = None,
                    task_created_at = 1, task_updated_at = 1\<rparr>],
         enforce_fk = True\<rparr> 5 ''t1'' ''COMPLETED'' = (Inr (Some t), db')
        \<and> get_by_id db' ''t1'' = Some t \<and> status t = ''COMPLETED'')
   \<and> update_status
        \<lparr>users = {''u1''},
         tasks = [''t1'' \<mapsto> \<lparr>task_id = ''t1'', task_user_id = ''u1'', description = ''call mum'',
                    priority = 3, status = ''OPEN'', due_date = None,
                    task_created_at = 1, task_updated_at = 1\<rparr>],
         enforce_fk = True\<rparr> 5 ''t1'' ''DONE''
      = (Inl (ValueError ''Invalid status: DONE''),
         \<lparr>users = {''u1''},
         tasks = [''t1'' \<mapsto> \<lparr>task_id = ''t1'', task_user_id = ''u1'', description = ''call mum'',
                    priority = 3, status = ''OPEN'', due_date = None,
                    task_created_at = 1, task_updated_at = 1\<rparr>],
         enforce_fk = True\<rparr>)"
proof -
  let ?db = "\<lparr>users = {''u1''},
         tasks = [''t1'' \<mapsto> \<lparr>task_id = ''t1'', task_user_id = ''u1'', description = ''call mum'',
                    priority = 3, status = ''OPEN'', due_date = None,
                    task_created_at = 1, task_updated_at = 1\<rparr>],
         enforce_fk = True\<rparr>"
  have ok: "''COMPLETED'' \<in> valid_statuses \<and> tasks ?db ''t1'' \<noteq> None"
    by (simp add: valid_statuses_def)
  have bad: "''DONE'' \<notin> valid_statuses" by (simp add: valid_statuses_def)
  from status_validation [where db = "?db" and now = 5 and tid = "''t1''" and s = "''COMPLETED''",
         THEN conjunct2, THEN conjunct2, THEN conjunct1] ok
  have a: "\<exists>t db'. update_status ?db 5 ''t1'' ''COMPLETED'' = (Inr (Some t), db')
        \<and> get_by_id db' ''t1'' = Some t \<and> status t = ''COMPLETED''" by blast
  from status_validation [where db = "?db" and now = 5 and tid = "''t1''" and s = "''DONE''",
         THEN conjunct2, THEN conjunct1] bad
  have b: "update_status ?db 5 ''t1'' ''DONE'' = (Inl (ValueError (''Invalid status: '' @ ''DONE'')), ?db)"
    by blast
  from a b show ?thesis by simp
qed


subsection \<open>Intervention observer\<close>

lemma matches_loop_None:
  "matches_loop False txt ws = None \<longleftrightarrow> (\<forall>w \<in> set ws. \<not> str_in (str_lower w) txt)"
  by (induction ws) (simp_all add: Let_def)

lemma matches_loop_Some:
  "matches_loop False txt ws = Some w \<Longrightarrow> w \<in> set ws \<and> str_in (str_lower w) txt"
  by (induction ws) (simp_all add: Let_def split: if_splits)

lemma default_hotwords_lower_all: "\<forall>w \<in> set default_hotwords. str_lower w = w"
  by code_simp

lemma default_hotwords_nonempty_all: "\<forall>w \<in> set default_hotwords. w \<noteq> []"
  by code_simp

lemma default_target_all:
  "\<forall>w \<in> set default_hotwords.
     get_target_for_hotword w =
       (if w \<in> {''operator'', ''help'', ''emergency''} then Some ''human_intervention''
        else Some ''router'')"
  by code_simp

lemma default_kinds_all:
  "\<forall>w \<in> set default_hotwords.
     w \<in> {''operator'', ''help'', ''emergency''}
     \<or> w \<in> {''stop'', ''cancel'', ''nevermind'', ''never mind''}"
  by code_simp

lemma matches_default:
  "matches (HotwordConfig_init None False) t = matches_loop False (str_lower t) default_hotwords"
  by (simp add: matches_def HotwordConfig_init_def Let_def)

lemma analyze_signal_text:
  assumes "signal = TextSignal sid md t \<or> (signal = AudioSignal sid md a \<and> md ''transcription'' = Some t)"
    and "\<not> enable_sentiment obs"
  shows "analyze_signal obs signal =
     (case matches (hotword_config obs) t of
        None \<Rightarrow> (Inr (), obs)
      | Some w \<Rightarrow>
          if t = [] \<or> w = [] then (Inr (), obs)
          else (Inl (PriorityIntervention (''Hotword detected: '' @ w) ''HOTWORD''
                       (get_target_for_hotword w)
                       [(''hotword'', DStr w), (''original_text'', DStr t)]),
                obs\<lparr>p_intervention_triggered := True\<rparr>))"
  using assms by (auto simp: analyze_signal_def Let_def truthy_def split: option.splits)

text \<open>
  C6. With the default hotword list, case-insensitive matching and sentiment analysis off,
  a signal that carries the text \<open>t\<close> (the content of a text signal, or the transcription in
  the metadata of an audio signal) makes the observer raise exactly when the lowercased
  text contains one of the default hotwords. What it raises is a \<open>PriorityIntervention\<close> of
  type \<^verbatim>\<open>HOTWORD\<close> for the hotword \<open>matches\<close> returned; its target is
  \<^verbatim>\<open>human_intervention\<close> when that hotword is operator, help or emergency, and \<^verbatim>\<open>router\<close>
  when it is stop, cancel, nevermind or never mind.
\<close>

theorem hotword_detection:
  assumes cfg: "hotword_config obs = HotwordConfig_init None False"
    and sent: "\<not> enable_sentiment obs"
    and sig: "signal = TextSignal sid md t
              \<or> (signal = AudioSignal sid md a \<and> md ''transcription'' = Some t)"
  shows "((\<exists>e. fst (analyze_signal obs signal) = Inl e) \<longleftrightarrow>
            (\<exists>w \<in> set default_hotwords. str_in (str_lower w) (str_lower t)))
     \<and> (\<forall>e. fst (analyze_signal obs signal) = Inl e \<longrightarrow>
          (\<exists>w. matches (hotword_config obs) t = Some w
             \<and> w \<in> set default_hotwords \<and> str_in (str_lower w) (str_lower t)
             \<and> e = PriorityIntervention (''Hotword detected: '' @ w) ''HOTWORD''
                   (if w \<in> {''operator'', ''help'', ''emergency''}
                    then Some ''human_intervention'' else Some ''router'')
                   [(''hotword'', DStr w), (''original_text'', DStr t)]
             \<and> ((w \<in> {''operator'', ''help'', ''emergency''})
                  \<or> (w \<in> {''stop'', ''cancel'', ''nevermind'', ''never mind''}))))"
proof (cases "matches_loop False (str_lower t) default_hotwords")
  case None
  then have m: "matches (hotword_config obs) t = None" by (simp add: cfg matches_default)
  have no: "\<forall>w \<in> set default_hotwords. \<not> str_in (str_lower w) (str_lower t)"
    using None by (simp only: matches_loop_None)
  have "analyze_signal obs signal = (Inr (), obs)"
    using analyze_signal_text [OF sig sent] m by simp
  with no show ?thesis by simp
next
  case (Some w)
  then have m: "matches (hotword_config obs) t = Some w" by (simp add: cfg matches_default)
  from Some have w: "w \<in> set default_hotwords" and hit: "str_in (str_lower w) (str_lower t)"
    by (auto dest: matches_loop_Some)
  have wne: "w \<noteq> []" using w default_hotwords_nonempty_all by blast
  have wl: "str_lower w = w" using w default_hotwords_lower_all by blast
  have tne: "t \<noteq> []"
  proof
    assume "t = []"
    with hit have "str_lower w = []" by (simp add: str_lower_def)
    with wl wne show False by simp
  qed
  have tgt: "get_target_for_hotword w =
       (if w \<in> {''operator'', ''help'', ''emergency''} then Some ''human_intervention''
        else Some ''router'')"
    using default_target_all w by (rule bspec)
  have kinds: "(w \<in> {''operator'', ''help'', ''emergency''})
                  \<or> (w \<in> {''stop'', ''cancel'', ''nevermind'', ''never mind''})"
    using default_kinds_all w by (rule bspec)
  have res: "analyze_signal obs signal =
      (Inl (PriorityIntervention (''Hotword detected: '' @ w) ''HOTWORD''
              (if w \<in> {''operator'', ''help'', ''emergency''} then Some ''human_intervention''
               else Some ''router'')
              [(''hotword'', DStr w), (''original_text'', DStr t)]),
       obs\<lparr>p_intervention_triggered := True\<rparr>)"
    using analyze_signal_text [OF sig sent] m wne tne tgt by simp
  have left: "\<exists>e. fst (analyze_signal obs signal) = Inl e" by (simp add: res)
  have right: "\<exists>w \<in> set default_hotwords. str_in (str_lower w) (str_lower t)"
    using w hit by blast
  have detail: "\<forall>e. fst (analyze_signal obs signal) = Inl e \<longrightarrow>
          (\<exists>w. matches (hotword_config obs) t = Some w
             \<and> w \<in> set default_hotwords \<and> str_in (str_lower w) (str_lower t)
             \<and> e = PriorityIntervention (''Hotword detected: '' @ w) ''HOTWORD''
                   (if w \<in> {''operator'', ''help'', ''emergency''}
                    then Some ''human_intervention'' else Some ''router'')
                   [(''hotword'', DStr w), (''original_text'', DStr t)]
             \<and> ((w \<in> {''operator'', ''help'', ''emergency''})
                  \<or> (w \<in> {''stop'', ''cancel'', ''nevermind'', ''never mind''})))"
  proof (intro allI impI)
    fix e assume "fst (analyze_signal obs signal) = Inl e"
    then have e_eq: "e = PriorityIntervention (''Hotword detected: '' @ w) ''HOTWORD''
                   (if w \<in> {''operator'', ''help'', ''emergency''}
                    then Some ''human_intervention'' else Some ''router'')
                   [(''hotword'', DStr w), (''original_text'', DStr t)]"
      by (simp only: res fst_conv sum.inject)
    show "\<exists>w. matches (hotword_config obs) t = Some w
             \<and> w \<in> set default_hotwords \<and> str_in (str_lower w) (str_lower t)
             \<and> e = PriorityIntervention (''Hotword detected: '' @ w) ''HOTWORD''
                   (if w \<in> {''operator'', ''help'', ''emergency''}
                    then Some ''human_intervention'' else Some ''router'')
                   [(''hotword'', DStr w), (''original_text'', DStr t)]
             \<and> ((w \<in> {''operator'', ''help'', ''emergency''})
                  \<or> (w \<in> {''stop'', ''cancel'', ''nevermind'', ''never mind''}))"
      apply (rule exI [of _ w])
      apply (intro conjI)
          apply (rule m)
         apply (rule w)
        apply (rule hit)
       apply (rule e_eq)
      apply (rule kinds)
      done
  qed
  show ?thesis
    apply (intro conjI iffI)
      apply (rule right)
     apply (rule left)
    apply (rule detail)
    done
qed

theorem hotword_detection_witness:
  "\<exists>e. fst (analyze_signal
            \<lparr>hotword_config = HotwordConfig_init None False, enable_sentiment = False,
             p_last_activity = 0, p_intervention_triggered = False, p_cancel_event = False\<rparr>
            (TextSignal ''s1'' Map.empty ''Operator please'')) = Inl e"
proof -
  let ?obs = "\<lparr>hotword_config = HotwordConfig_init None False, enable_sentiment = False,
             p_last_activity = 0, p_intervention_triggered = False, p_cancel_event = False\<rparr>"
  let ?sig = "TextSignal ''s1'' Map.empty ''Operator please''"
  have cfg: "hotword_config ?obs = HotwordConfig_init None False" by simp
  have sent: "\<not> enable_sentiment ?obs" by simp
  have sig: "?sig = TextSignal ''s1'' Map.empty ''Operator please''
              \<or> (?sig = AudioSignal ''s1'' Map.empty [] \<and> Map.empty ''transcription'' = Some ''Operator please'')"
    by simp
  have mem: "''operator'' \<in> set default_hotwords" by code_simp
  have hit: "str_in (str_lower ''operator'') (str_lower ''Operator please'')" by code_simp
  have ex: "\<exists>w \<in> set default_hotwords. str_in (str_lower w) (str_lower ''Operator please'')"
    by (rule bexI [where x = "''operator''"
          and P = "\<lambda>w. str_in (str_lower w) (str_lower ''Operator please'')", OF hit mem])
  from hotword_detection [OF cfg sent sig, THEN conjunct1] ex show ?thesis
    by (rule iffD2)
qed


subsection \<open>Orchestrator: registry and agent switch\<close>

text \<open>
  C10. \<open>register_agent\<close> raises exactly when the agent's name is already a key of the
  registry, and then it raises the \<open>ValueError\<close> and changes nothing. Otherwise the agent
  is what \<open>get_agent\<close> returns for its name, and its name is appended to
  \<open>available_agents\<close> only when it is not there yet, so a duplicate-free list stays
  duplicate-free.
\<close>

theorem register_agent_unique:
  "((\<exists>e. fst (register_agent a st) = Inl e) \<longleftrightarrow> name a \<in> dom (p_agents st))
   \<and> (name a \<in> dom (p_agents st) \<longrightarrow>
        register_agent a st =
          (Inl (ValueError (''Agent '' @ [CHR 0x27] @ name a @ [CHR 0x27]
                            @ '' is already registered'')), st))
   \<and> (name a \<notin> dom (p_agents st) \<longrightarrow>
        fst (register_agent a st) = Inr ()
        \<and> get_agent (snd (register_agent a st)) (name a) = Some a
        \<and> available_agents (ctx (snd (register_agent a st))) =
            (if name a \<in> set (available_agents (ctx st)) then available_agents (ctx st)
             else available_agents (ctx st) @ [name a]))
   \<and> (distinct (available_agents (ctx st)) \<longrightarrow>
        distinct (available_agents (ctx (snd (register_agent a st)))))"
  by (simp add: register_agent_def get_agent_def Let_def)

text \<open>
  C7. For a name that is not a key of the registry, \<open>set_active_agent\<close> raises a
  \<open>RoutingException\<close> whose source is the session's active agent and whose target is the
  name, and returns the orchestrator as it was: no hook was called, no agent changed, and
  the session's \<open>active_agent\<close>, \<open>previous_agent\<close> and \<open>last_activity\<close> are the old ones.
\<close>

theorem set_active_agent_unknown:
  "agent_name' \<notin> dom (p_agents st) \<Longrightarrow>
     set_active_agent now agent_name' handoff st =
       (Inl (RoutingException
               (''Agent '' @ [CHR 0x27] @ agent_name' @ [CHR 0x27] @ '' not found'')
               (active_agent (session (ctx st))) agent_name'), st)
     \<and> calls (snd (set_active_agent now agent_name' handoff st)) = calls st
     \<and> p_agents (snd (set_active_agent now agent_name' handoff st)) = p_agents st
     \<and> active_agent (session (ctx (snd (set_active_agent now agent_name' handoff st))))
         = active_agent (session (ctx st))
     \<and> previous_agent (session (ctx (snd (set_active_agent now agent_name' handoff st))))
         = previous_agent (session (ctx st))
     \<and> last_activity (session (ctx (snd (set_active_agent now agent_name' handoff st))))
         = last_activity (session (ctx st))"
  by (simp add: set_active_agent_def)

theorem register_agent_unique_witness:
  "get_agent
     (snd (register_agent \<lparr>name = ''router'', tools = [], p_handoff_context = None\<rparr>
             (Orchestrator_init (GlobalContext_init 0 (SessionContext_init 0 ''s1'' CLI))
                \<lparr>hotword_config = HotwordConfig_init None False, enable_sentiment = False,
                 p_last_activity = 0, p_intervention_triggered = False,
                 p_cancel_event = False\<rparr>)))
     ''router''
   = Some \<lparr>name = ''router'', tools = [], p_handoff_context = None\<rparr>"
proof -
  let ?a = "\<lparr>name = ''router'', tools = [], p_handoff_context = None\<rparr>"
  let ?st = "Orchestrator_init (GlobalContext_init 0 (SessionContext_init 0 ''s1'' CLI))
                \<lparr>hotword_config = HotwordConfig_init None False, enable_sentiment = False,
                 p_last_activity = 0, p_intervention_triggered = False,
                 p_cancel_event = False\<rparr>"
  have fresh: "name ?a \<notin> dom (p_agents ?st)" by (simp add: Orchestrator_init_def)
  from register_agent_unique [of ?a ?st, THEN conjunct2, THEN conjunct2, THEN conjunct1] fresh
  have "get_agent (snd (register_agent ?a ?st)) (name ?a) = Some ?a" by blast
  then show ?thesis by simp
qed

theorem set_active_agent_unknown_witness:
  "set_active_agent 1 ''billing'' None
     (Orchestrator_init (GlobalContext_init 0 (SessionContext_init 0 ''s1'' CLI))
        \<lparr>hotword_config = HotwordConfig_init None False, enable_sentiment = False,
         p_last_activity = 0, p_intervention_triggered = False, p_cancel_event = False\<rparr>)
   = (Inl (RoutingException (''Agent '' @ [CHR 0x27] @ ''billing'' @ [CHR 0x27] @ '' not found'')
             ''router'' ''billing''),
      Orchestrator_init (GlobalContext_init 0 (SessionContext_init 0 ''s1'' CLI))
        \<lparr>hotword_config = HotwordConfig_init None False, enable_sentiment = False,
         p_last_activity = 0, p_intervention_triggered = False, p_cancel_event = False\<rparr>)"
proof -
  let ?st = "Orchestrator_init (GlobalContext_init 0 (SessionContext_init 0 ''s1'' CLI))
                \<lparr>hotword_config = HotwordConfig_init None False, enable_sentiment = False,
                 p_last_activity = 0, p_intervention_triggered = False,
                 p_cancel_event = False\<rparr>"
  have unknown: "''billing'' \<notin> dom (p_agents ?st)" by (simp add: Orchestrator_init_def)
  have src: "active_agent (session (ctx ?st)) = ''router''"
    by (simp add: Orchestrator_init_def GlobalContext_init_def SessionContext_init_def)
  from set_active_agent_unknown [OF unknown, of 1 None, THEN conjunct1]
  show ?thesis by (simp only: src)
qed

subsection \<open>Orchestrator: authentication gate\<close>

lemma router_unauthenticated:
  "map_option route_to (routing_decision (router_process_signal nm signal False llm)) = Some ''identity''"
  by (simp add: router_process_signal_def routing_response_def)

lemma set_active_agent_known:
  "agent_name' \<in> dom (p_agents st) \<Longrightarrow> p_active_agent st = Some k \<Longrightarrow>
     set_active_agent now agent_name' handoff st =
       (Inr (), call_on_enter agent_name' handoff
                  ((call_on_exit k st)
                     \<lparr>p_active_agent := Some agent_name',
                      ctx := (ctx st)\<lparr>session := switch_agent now agent_name' (session (ctx st))\<rparr>\<rparr>))"
  by (simp add: set_active_agent_def Let_def call_on_exit_def)

lemma pre_signal_simps:
  "p_agents (pre_signal now signal st) = p_agents st"
  "p_active_agent (pre_signal now signal st) = p_active_agent st"
  "calls (pre_signal now signal st) = calls st"
  "user (ctx (pre_signal now signal st)) = user (ctx st)"
  "active_agent (session (ctx (pre_signal now signal st))) = active_agent (session (ctx st))"
  by (cases signal; simp add: pre_signal_def refresh_time_def add_turn_def)+

lemma orch_process_signal_unfold:
  "p_active_agent st = Some k0 \<Longrightarrow>
   orch_process_signal now signal reply st =
     (let st1 = pre_signal now signal st
      in if \<not> ctx_is_authenticated (ctx st1) \<and> agent_name_of st1 k0 \<noteq> ''identity''
            \<and> ''identity'' \<in> dom (p_agents st1)
         then
           let (handoff, st2) = orch_prepare_handoff now ''identity''
                                  (Some ''Authentication required'') None st1;
               (r, st3) = set_active_agent now ''identity'' (Some handoff) st2
           in (case r of
                 Inl e \<Rightarrow> (Inl e, st3)
               | Inr u \<Rightarrow>
                   (case p_active_agent st3 of
                      None \<Rightarrow> (Inl (RuntimeError ''No active agent''), st3)
                    | Some k \<Rightarrow> (reply k signal (ctx st3),
                                 st3\<lparr>calls := calls st3 @ [Call_process_signal k]\<rparr>)))
         else (reply k0 signal (ctx st1), st1\<lparr>calls := calls st1 @ [Call_process_signal k0]\<rparr>))"
  by (cases signal; hypsubst)
     (simp_all add: orch_process_signal_def pre_signal_def Let_def split: prod.splits)

lemma agent_name_of_pre_signal: "agent_name_of (pre_signal now signal st) k = agent_name_of st k"
  by (simp add: agent_name_of_def pre_signal_simps)

lemma ctx_is_authenticated_pre_signal:
  "ctx_is_authenticated (ctx (pre_signal now signal st)) = ctx_is_authenticated (ctx st)"
  by (simp add: ctx_is_authenticated_def pre_signal_simps)

text \<open>
  C1. While the user is not authenticated, \<^verbatim>\<open>_process_signal\<close> with active agent \<open>k0\<close> does
  one of three things. If the active agent is already \<^verbatim>\<open>identity\<close>, that agent processes the
  signal and nothing else is called. If it is another agent and an \<^verbatim>\<open>identity\<close> agent is
  registered, the calls are, in this order: \<^verbatim>\<open>prepare_handoff\<close> (target \<^verbatim>\<open>identity\<close>, source the
  session's active agent, reason \<^verbatim>\<open>Authentication required\<close>), \<^verbatim>\<open>on_exit\<close> of the old agent,
  \<^verbatim>\<open>on_enter\<close> of \<^verbatim>\<open>identity\<close> with that handoff, and only then \<^verbatim>\<open>process_signal\<close> of
  \<^verbatim>\<open>identity\<close>; the active agent of the orchestrator and of the session is \<^verbatim>\<open>identity\<close>
  afterwards. If no \<^verbatim>\<open>identity\<close> agent is registered, the old agent processes the signal.
  And the router's \<^verbatim>\<open>process_signal\<close> on an unauthenticated context returns, for every
  signal and every model reply, a routing decision for \<^verbatim>\<open>identity\<close>.
\<close>

theorem authentication_gate:
  assumes unauth: "\<not> ctx_is_authenticated (ctx st)"
    and act: "p_active_agent st = Some k0"
  shows
    "(agent_name_of st k0 = ''identity'' \<longrightarrow>
        calls (snd (orch_process_signal now signal reply st))
          = calls st @ [Call_process_signal k0]
        \<and> fst (orch_process_signal now signal reply st)
          = reply k0 signal (ctx (snd (orch_process_signal now signal reply st))))
     \<and> (agent_name_of st k0 \<noteq> ''identity'' \<and> ''identity'' \<in> dom (p_agents st) \<longrightarrow>
          (\<exists>h. calls (snd (orch_process_signal now signal reply st))
                  = calls st @ [Call_prepare_handoff h, Call_on_exit k0,
                                Call_on_enter ''identity'' (Some h),
                                Call_process_signal ''identity'']
               \<and> target_agent h = ''identity''
               \<and> source_agent h = active_agent (session (ctx st))
               \<and> reason h = Some ''Authentication required''
               \<and> handoff_data (session (ctx (snd (orch_process_signal now signal reply st))))
                   = Some h
               \<and> p_active_agent (snd (orch_process_signal now signal reply st))
                   = Some ''identity''
               \<and> active_agent (session (ctx (snd (orch_process_signal now signal reply st))))
                   = ''identity''
               \<and> fst (orch_process_signal now signal reply st)
                   = reply ''identity'' signal
                       (ctx (snd (orch_process_signal now signal reply st)))))
     \<and> (agent_name_of st k0 \<noteq> ''identity'' \<and> ''identity'' \<notin> dom (p_agents st) \<longrightarrow>
          calls (snd (orch_process_signal now signal reply st))
            = calls st @ [Call_process_signal k0])
     \<and> (\<forall>nm llm. map_option route_to
            (routing_decision
               (router_process_signal nm signal (ctx_is_authenticated (ctx st)) llm))
          = Some ''identity'')"
proof (intro conjI impI allI)
  note unf = orch_process_signal_unfold [OF act, of now signal reply]
  {
    assume "agent_name_of st k0 = ''identity''"
    then have r: "orch_process_signal now signal reply st =
        (reply k0 signal (ctx (pre_signal now signal st)),
         (pre_signal now signal st)\<lparr>calls := calls (pre_signal now signal st)
                                         @ [Call_process_signal k0]\<rparr>)"
      by (simp add: unf Let_def agent_name_of_pre_signal)
    show "calls (snd (orch_process_signal now signal reply st))
          = calls st @ [Call_process_signal k0]"
      by (simp add: r pre_signal_simps)
    show "fst (orch_process_signal now signal reply st)
          = reply k0 signal (ctx (snd (orch_process_signal now signal reply st)))"
      by (simp add: r)
  }
  {
    assume "agent_name_of st k0 \<noteq> ''identity'' \<and> ''identity'' \<notin> dom (p_agents st)"
    then have r: "orch_process_signal now signal reply st =
        (reply k0 signal (ctx (pre_signal now signal st)),
         (pre_signal now signal st)\<lparr>calls := calls (pre_signal now signal st)
                                         @ [Call_process_signal k0]\<rparr>)"
      by (simp add: unf Let_def pre_signal_simps)
    show "calls (snd (orch_process_signal now signal reply st))
          = calls st @ [Call_process_signal k0]"
      by (simp add: r pre_signal_simps)
  }
  {
    fix nm llm
    show "map_option route_to
            (routing_decision
               (router_process_signal nm signal (ctx_is_authenticated (ctx st)) llm))
          = Some ''identity''"
      using unauth by (simp add: router_unauthenticated)
  }
  {
    assume a: "agent_name_of st k0 \<noteq> ''identity'' \<and> ''identity'' \<in> dom (p_agents st)"
    let ?st1 = "pre_signal now signal st"
    obtain h st2 where prep: "orch_prepare_handoff now ''identity''
                                (Some ''Authentication required'') None ?st1 = (h, st2)"
      by (cases "orch_prepare_handoff now ''identity''
                   (Some ''Authentication required'') None ?st1")
    have h: "target_agent h = ''identity''" "reason h = Some ''Authentication required''"
      "source_agent h = active_agent (session (ctx st))"
      and st2: "p_agents st2 = p_agents st" "p_active_agent st2 = Some k0"
        "calls st2 = calls st @ [Call_prepare_handoff h]"
        "handoff_data (session (ctx st2)) = Some h"
      using prep act
      by (auto simp: orch_prepare_handoff_def prepare_handoff_def Let_def pre_signal_simps)
    have known: "''identity'' \<in> dom (p_agents st2)" using a st2 by simp
    let ?st3 = "call_on_enter ''identity'' (Some h)
                  ((call_on_exit k0 st2)
                     \<lparr>p_active_agent := Some ''identity'',
                      ctx := (ctx st2)\<lparr>session := switch_agent now ''identity''
                                                   (session (ctx st2))\<rparr>\<rparr>)"
    have sw: "set_active_agent now ''identity'' (Some h) st2 = (Inr (), ?st3)"
      using set_active_agent_known [OF known st2(2)] .
    have st3: "p_active_agent ?st3 = Some ''identity''"
      "calls ?st3 = calls st @ [Call_prepare_handoff h, Call_on_exit k0,
                                Call_on_enter ''identity'' (Some h)]"
      "handoff_data (session (ctx ?st3)) = Some h"
      "active_agent (session (ctx ?st3)) = ''identity''"
      by (simp_all add: call_on_enter_def call_on_exit_def switch_agent_def st2)
    have r: "orch_process_signal now signal reply st =
        (reply ''identity'' signal (ctx ?st3),
         ?st3\<lparr>calls := calls ?st3 @ [Call_process_signal ''identity'']\<rparr>)"
      using a unauth
      by (simp add: unf Let_def pre_signal_simps agent_name_of_pre_signal
            ctx_is_authenticated_pre_signal prep sw st3(1))
    show "\<exists>h. calls (snd (orch_process_signal now signal reply st))
                  = calls st @ [Call_prepare_handoff h, Call_on_exit k0,
                                Call_on_enter ''identity'' (Some h),
                                Call_process_signal ''identity'']
               \<and> target_agent h = ''identity''
               \<and> source_agent h = active_agent (session (ctx st))
               \<and> reason h = Some ''Authentication required''
               \<and> handoff_data (session (ctx (snd (orch_process_signal now signal reply st))))
                   = Some h
               \<and> p_active_agent (snd (orch_process_signal now signal reply st))
                   = Some ''identity''
               \<and> active_agent (session (ctx (snd (orch_process_signal now signal reply st))))
                   = ''identity''
               \<and> fst (orch_process_signal now signal reply st)
                   = reply ''identity'' signal
                       (ctx (snd (orch_process_signal now signal reply st)))"
      apply (rule exI [of _ h])
      apply (simp only: r snd_conv fst_conv)
      apply (simp add: st3 h)
      done
  }
qed

theorem authentication_gate_witness:
  "p_active_agent
     (snd (orch_process_signal 1 (TextSignal ''s1'' Map.empty ''hello'')
             (\<lambda>k s c. Inr (text_response ''s1'' k ''ok''))
             \<lparr>ctx = GlobalContext_init 0 (SessionContext_init 0 ''s1'' CLI),
              observer = \<lparr>hotword_config = HotwordConfig_init None False,
                          enable_sentiment = False, p_last_activity = 0,
                          p_intervention_triggered = False, p_cancel_event = False\<rparr>,
              p_agents = [''router'' \<mapsto> \<lparr>name = ''router'', tools = [],
                                           p_handoff_context = None\<rparr>,
                          ''identity'' \<mapsto> \<lparr>name = ''identity'', tools = [],
                                             p_handoff_context = None\<rparr>],
              p_active_agent = Some ''router'', p_running = True, calls = []\<rparr>))
   = Some ''identity''"
proof -
  let ?st = "\<lparr>ctx = GlobalContext_init 0 (SessionContext_init 0 ''s1'' CLI),
              observer = \<lparr>hotword_config = HotwordConfig_init None False,
                          enable_sentiment = False, p_last_activity = 0,
                          p_intervention_triggered = False, p_cancel_event = False\<rparr>,
              p_agents = [''router'' \<mapsto> \<lparr>name = ''router'', tools = [],
                                           p_handoff_context = None\<rparr>,
                          ''identity'' \<mapsto> \<lparr>name = ''identity'', tools = [],
                                             p_handoff_context = None\<rparr>],
              p_active_agent = Some ''router'', p_running = True, calls = []\<rparr>"
  have unauth: "\<not> ctx_is_authenticated (ctx ?st)"
    by (simp add: ctx_is_authenticated_def GlobalContext_init_def anonymous_def)
  have act: "p_active_agent ?st = Some ''router''" by simp
  have a: "agent_name_of ?st ''router'' \<noteq> ''identity'' \<and> ''identity'' \<in> dom (p_agents ?st)"
    by (simp add: agent_name_of_def)
  note gate = authentication_gate [OF unauth act,
      where signal = "TextSignal ''s1'' Map.empty ''hello''" and now = 1
        and reply = "\<lambda>k s c. Inr (text_response ''s1'' k ''ok'')",
      THEN conjunct2, THEN conjunct1]
  from gate [THEN mp, OF a] show ?thesis by (elim exE conjE)
qed

end
